theory Spec2Isabelle
  imports Complex_Main
begin

section \<open>Pick list allocation: data model\<close>

text \<open>
  The development follows \<^verbatim>\<open>erpnext/stock/doctype/pick_list/pick_list.py\<close>.
  Quantities are Python floats in the source; they are modelled as exact rationals, the
  decimal values that the database stores. The binary rounding of floats is modelled
  where the outcome of a comparison depends on it, in \<^verbatim>\<open>validate_picked_qty\<close>.
  Optional document fields (\<^verbatim>\<open>None\<close> in Python) are \<open>option\<close> values.
\<close>

text \<open>
  A stock candidate, one entry of \<^verbatim>\<open>item_location_map[item_code]\<close>: the dict
  that a candidate provider returns for one warehouse.
\<close>

record item_location =
  il_warehouse :: "string option"
  il_qty :: rat
  il_item_code :: "string option"
  il_serial_no :: "string list option"
  il_serial_and_batch_bundle :: "string option"

text \<open>The dict appended to \<^verbatim>\<open>locations\<close> by the allocator for one consumed candidate.\<close>

record result_row =
  rr_qty :: rat
  rr_stock_qty :: rat
  rr_warehouse :: "string option"
  rr_serial_and_batch_bundle :: "string option"

text \<open>A row of the \<^verbatim>\<open>locations\<close> child table (a Pick List Item document).\<close>

record pick_list_item =
  pli_item_code :: string
  pli_uom :: "string option"
  pli_warehouse :: "string option"
  pli_batch_no :: "string option"
  pli_serial_no :: "string option"
  pli_sales_order :: "string option"
  pli_sales_order_item :: "string option"
  pli_material_request_item :: "string option"
  pli_product_bundle_item :: "string option"
  pli_qty :: rat
  pli_stock_qty :: rat
  pli_picked_qty :: rat
  pli_conversion_factor :: rat
  pli_serial_and_batch_bundle :: "string option"

section \<open>The greedy allocator\<close>

text \<open>Python's \<^verbatim>\<open>int(x)\<close> on a number: truncation towards zero.\<close>

definition py_int :: "rat \<Rightarrow> int" where
  "py_int x = (if 0 \<le> x then \<lfloor>x\<rfloor> else \<lceil>x\<rceil>)"

text \<open>
  Python's slice \<^verbatim>\<open>xs[i:]\<close>: a negative start counts from the end and is clipped
  at the beginning of the list, so \<^verbatim>\<open>xs[-0:]\<close> is the whole list.
\<close>

definition py_slice_from :: "int \<Rightarrow> 'a list \<Rightarrow> 'a list" where
  "py_slice_from i xs =
     (if i < 0 then drop (nat (int (length xs) + i)) xs else drop (nat i) xs)"

text \<open>
  Lines 598--608: the quantity taken from one candidate. \<open>None\<close> is the
  \<^verbatim>\<open>break\<close> of line 608; otherwise the pair is \<^verbatim>\<open>(qty, stock_qty)\<close> as stored in
  the emitted row. The divisor is \<^verbatim>\<open>conversion_factor or 1\<close>, the multiplier of
  line 606 is the conversion factor itself.
\<close>

definition take_from :: "bool \<Rightarrow> rat \<Rightarrow> rat \<Rightarrow> rat \<Rightarrow> (rat \<times> rat) option" where
  "take_from whole_number cf remaining_stock_qty location_qty =
     (let stock_qty = (if location_qty \<ge> remaining_stock_qty then remaining_stock_qty
                       else location_qty);
          qty = stock_qty / (if cf = 0 then 1 else cf)
      in if whole_number then
           (let qty' = of_int \<lfloor>qty\<rfloor>; stock_qty' = qty' * cf
            in if stock_qty' = 0 then None else Some (qty', stock_qty'))
         else Some (qty, stock_qty))"

text \<open>
  Lines 623--630: a candidate with a positive difference is shrunk and put back in front
  of the remaining candidates; a serial list that is present and non-empty is cut to
  \<^verbatim>\<open>serial_no[-int(qty_diff):]\<close>.
\<close>

definition requeue :: "item_location \<Rightarrow> rat \<Rightarrow> item_location list \<Rightarrow> item_location list" where
  "requeue item_location qty_diff available_locations =
     (if qty_diff > 0 then
        item_location\<lparr>il_qty := qty_diff,
          il_serial_no :=
            (case il_serial_no item_location of
               None \<Rightarrow> None
             | Some sn \<Rightarrow> if sn = [] then Some sn
                          else Some (py_slice_from (- py_int qty_diff) sn))\<rparr>
        # available_locations
      else available_locations)"

text \<open>
  One pass through the body of the \<^verbatim>\<open>while\<close> loop (lines 595--630) for the popped
  candidate: either the loop is left by \<^verbatim>\<open>break\<close>, or a row is emitted and the loop
  goes on with a new remaining quantity and a new candidate list.
\<close>

datatype step_result = Break | Continue result_row rat "item_location list"

definition alloc_step ::
    "bool \<Rightarrow> rat \<Rightarrow> rat \<Rightarrow> item_location \<Rightarrow> item_location list \<Rightarrow> step_result" where
  "alloc_step whole_number cf remaining_stock_qty item_location available_locations =
     (case take_from whole_number cf remaining_stock_qty (il_qty item_location) of
        None \<Rightarrow> Break
      | Some (qty, stock_qty) \<Rightarrow>
          Continue
            \<lparr>rr_qty = qty, rr_stock_qty = stock_qty,
             rr_warehouse = il_warehouse item_location,
             rr_serial_and_batch_bundle = il_serial_and_batch_bundle item_location\<rparr>
            (remaining_stock_qty - stock_qty)
            (requeue item_location (il_qty item_location - stock_qty) available_locations))"

subsection \<open>Termination of the allocation loop\<close>

text \<open>
  The loop of lines 594--630 pops a candidate in every pass and may push one back, so the
  length of the candidate list alone does not decrease. Candidates are weighted: one that
  a whole-number unit can no longer be taken from (its quantity lies strictly between 0
  and the conversion factor) weighs 1, any other 2. Every pass that does not leave the
  loop either lowers the weight of the list, or ends the demand, or keeps the weight and
  lowers the number of whole units still demanded.
\<close>

definition loc_weight :: "bool \<Rightarrow> rat \<Rightarrow> item_location \<Rightarrow> nat" where
  "loc_weight wn cf loc = (if wn \<and> 0 < cf \<and> 0 < il_qty loc \<and> il_qty loc < cf then 1 else 2)"

definition queue_weight :: "bool \<Rightarrow> rat \<Rightarrow> rat \<Rightarrow> item_location list \<Rightarrow> nat" where
  "queue_weight wn cf r L = (if 0 < r then Suc (sum_list (map (loc_weight wn cf) L)) else 0)"

definition units_left :: "rat \<Rightarrow> rat \<Rightarrow> nat" where
  "units_left cf r = (if 0 < cf then nat \<lfloor>r / cf\<rfloor> else 0)"

lemma take_from_plain:
  "take_from False cf r q = Some (x, s) \<Longrightarrow> s = (if q \<ge> r then r else q)"
  by (auto simp: take_from_def Let_def split: if_splits)

lemma floor_mult_le_pos:
  fixes s cf :: rat
  assumes "0 < cf"
  shows "of_int \<lfloor>s / cf\<rfloor> * cf \<le> s" and "s < (of_int \<lfloor>s / cf\<rfloor> + 1) * cf"
proof -
  have "of_int \<lfloor>s / cf\<rfloor> * cf \<le> (s / cf) * cf"
    using assms by (intro mult_right_mono) auto
  then show "of_int \<lfloor>s / cf\<rfloor> * cf \<le> s" using assms by simp
  have "s / cf < of_int \<lfloor>s / cf\<rfloor> + 1" by linarith
  then have "(s / cf) * cf < (of_int \<lfloor>s / cf\<rfloor> + 1) * cf"
    using assms by (intro mult_strict_right_mono) auto
  then show "s < (of_int \<lfloor>s / cf\<rfloor> + 1) * cf" using assms by simp
qed

lemma floor_mult_ge_neg:
  fixes s cf :: rat
  assumes "cf < 0"
  shows "s \<le> of_int \<lfloor>s / cf\<rfloor> * cf"
proof -
  have "(s / cf) * cf \<le> of_int \<lfloor>s / cf\<rfloor> * cf"
    using assms by (intro mult_right_mono_neg) auto
  then show ?thesis using assms by simp
qed

lemma take_from_whole:
  "take_from True cf r q = Some (x, s) \<Longrightarrow>
     x = of_int \<lfloor>(if q \<ge> r then r else q) / (if cf = 0 then 1 else cf)\<rfloor> \<and> s = x * cf \<and> s \<noteq> 0"
  by (auto simp: take_from_def Let_def split: if_splits)

lemma loc_weight_bounds: "1 \<le> loc_weight wn cf loc" "loc_weight wn cf loc \<le> 2"
  by (simp_all add: loc_weight_def)

lemma queue_weight_pop:
  assumes "0 < r"
  shows "queue_weight wn cf r' rest < queue_weight wn cf r (loc # rest)"
  using assms loc_weight_bounds(1) [of wn cf loc] by (simp add: queue_weight_def)

lemma queue_weight_done:
  assumes "0 < r" and "r' \<le> 0"
  shows "queue_weight wn cf r' L' < queue_weight wn cf r (loc # rest)"
  using assms by (simp add: queue_weight_def)

lemma requeue_nonpos: "d \<le> 0 \<Longrightarrow> requeue loc d rest = rest"
  by (simp add: requeue_def)

lemma requeue_pos:
  "0 < d \<Longrightarrow> \<exists>loc'. requeue loc d rest = loc' # rest \<and> il_qty loc' = d"
  by (simp add: requeue_def)

lemma units_left_drop:
  fixes r cf :: rat
  assumes cf: "0 < cf" and k: "1 \<le> k" and le: "k \<le> \<lfloor>r / cf\<rfloor>"
  shows "units_left cf (r - of_int k * cf) < units_left cf r"
proof -
  have "(r - of_int k * cf) / cf = r / cf - of_int k"
    using cf by (simp add: diff_divide_distrib)
  then have eq: "\<lfloor>(r - of_int k * cf) / cf\<rfloor> = \<lfloor>r / cf\<rfloor> - k"
    by simp
  have "nat (\<lfloor>r / cf\<rfloor> - k) < nat \<lfloor>r / cf\<rfloor>"
    using k le by linarith
  with cf show ?thesis by (simp only: units_left_def eq if_True)
qed

lemma alloc_step_decreases:
  assumes r: "0 < r" and st: "alloc_step wn cf r loc rest = Continue row r' L'"
  shows "queue_weight wn cf r' L' < queue_weight wn cf r (loc # rest)
       \<or> (queue_weight wn cf r' L' = queue_weight wn cf r (loc # rest)
          \<and> units_left cf r' < units_left cf r)"
proof -
  define q where "q = il_qty loc"
  define m where "m = (if q \<ge> r then r else q)"
  from st obtain x s where tf: "take_from wn cf r q = Some (x, s)"
    and r': "r' = r - s" and L': "L' = requeue loc (q - s) rest"
    by (auto simp: alloc_step_def q_def split: option.splits)
  have m_le: "m \<le> r" "m \<le> q" by (simp_all add: m_def)
  show ?thesis
  proof (cases wn)
    case False
    with tf have s: "s = m" by (simp add: take_from_plain m_def)
    show ?thesis
    proof (cases "q \<ge> r")
      case True
      with s r' have "r' \<le> 0" by (simp add: m_def)
      with r show ?thesis by (simp add: queue_weight_done)
    next
      case False
      with s L' have "L' = rest" by (simp add: m_def requeue_nonpos)
      with r show ?thesis by (simp add: queue_weight_pop)
    qed
  next
    case True
    define k where "k = \<lfloor>m / (if cf = 0 then 1 else cf)\<rfloor>"
    from tf True have "take_from True cf r q = Some (x, s)" by simp
    from take_from_whole [OF this]
    have x: "x = of_int k" and s: "s = x * cf" and s0: "s \<noteq> 0"
      unfolding k_def m_def by blast+
    from s s0 x have cf0: "cf \<noteq> 0" and k0: "k \<noteq> 0" by auto
    from cf0 have k_eq: "k = \<lfloor>m / cf\<rfloor>" by (simp add: k_def)
    show ?thesis
    proof (cases "0 < cf")
      case False
      with cf0 have neg: "cf < 0" by simp
      have ge: "m \<le> s" using floor_mult_ge_neg [OF neg, of m] by (simp add: s x k_eq)
      show ?thesis
      proof (cases "q \<ge> r")
        case True
        with ge r' have "r' \<le> 0" by (simp add: m_def)
        with r show ?thesis by (simp add: queue_weight_done)
      next
        case False
        with ge have "q - s \<le> 0" by (simp add: m_def)
        with L' have "L' = rest" by (simp add: requeue_nonpos)
        with r show ?thesis by (simp add: queue_weight_pop)
      qed
    next
      case pos: True
      have lo: "s \<le> m" and hi: "m < s + cf"
        using floor_mult_le_pos [OF pos, of m] by (simp_all add: s x k_eq algebra_simps)
      show ?thesis
      proof (cases "0 < q - s")
        case False
        with L' have "L' = rest" by (simp add: requeue_nonpos)
        with r show ?thesis by (simp add: queue_weight_pop)
      next
        case d: True
        then obtain loc' where loc': "L' = loc' # rest" "il_qty loc' = q - s"
          using requeue_pos [of "q - s" loc rest] L' by auto
        show ?thesis
        proof (cases "0 < m")
          case False
          with r have mq: "m = q" by (simp add: m_def split: if_splits)
          with hi d have "0 < il_qty loc' \<and> il_qty loc' < cf" by (simp add: loc')
          with True pos have w': "loc_weight wn cf loc' = 1" by (simp add: loc_weight_def)
          from False mq have "loc_weight wn cf loc = 2" by (simp add: loc_weight_def q_def)
          with w' r show ?thesis by (simp add: queue_weight_def loc')
        next
          case mpos: True
          with pos have "0 \<le> k" by (simp add: k_eq)
          with k0 have k1: "1 \<le> k" by simp
          have "cf \<le> s" using k1 pos by (simp add: s x)
          with lo m_le have "cf \<le> q" by simp
          then have w: "loc_weight wn cf loc = 2" by (simp add: loc_weight_def q_def)
          have le: "queue_weight wn cf r' L' \<le> queue_weight wn cf r (loc # rest)"
            using r w loc_weight_bounds(2) [of wn cf loc'] by (simp add: queue_weight_def loc')
          have "k \<le> \<lfloor>r / cf\<rfloor>"
            unfolding k_eq using m_le(1) pos by (intro floor_mono divide_right_mono) auto
          with pos k1 have "units_left cf (r - of_int k * cf) < units_left cf r"
            by (rule units_left_drop)
          then have "units_left cf r' < units_left cf r" by (simp add: r' s x)
          with le show ?thesis by auto
        qed
      qed
    qed
  qed
qed

text \<open>
  The \<^verbatim>\<open>while\<close> loop of \<^verbatim>\<open>get_items_with_location_and_quantity\<close>: the
  arguments are the loop variables, the result is the pair of the emitted rows and the
  candidate list that is written back to the map (line 633).
\<close>

function alloc_loop ::
    "bool \<Rightarrow> rat \<Rightarrow> rat \<Rightarrow> item_location list \<Rightarrow> result_row list
       \<Rightarrow> result_row list \<times> item_location list" where
  "alloc_loop whole_number cf remaining_stock_qty [] locations = (locations, [])"
| "alloc_loop whole_number cf remaining_stock_qty (item_location # available_locations) locations =
     (if remaining_stock_qty > 0 then
        (case alloc_step whole_number cf remaining_stock_qty item_location available_locations of
           Break \<Rightarrow> (locations, available_locations)
         | Continue row remaining' available' \<Rightarrow>
             alloc_loop whole_number cf remaining' available' (locations @ [row]))
      else (locations, item_location # available_locations))"
  by pat_completeness auto
termination
proof (relation "measures [\<lambda>(wn, cf, r, L, acc). queue_weight wn cf r L,
                          \<lambda>(wn, cf, r, L, acc). units_left cf r]", goal_cases)
  case 1
  show ?case by simp
next
  case (2 wn cf r loc rest acc row r' L')
  then show ?case using alloc_step_decreases [of r wn cf loc rest row r' L'] by auto
qed

declare alloc_loop.simps [simp del]

text \<open>
  Lines 589--592: the quantity the loop starts with. A submitted line (docstatus 1) whose
  stored stock quantity is zero starts from its \<^verbatim>\<open>qty\<close>.
\<close>

definition remaining_stock_qty :: "pick_list_item \<Rightarrow> int \<Rightarrow> rat" where
  "remaining_stock_qty item_doc docstatus =
     (if docstatus = 1 \<and> pli_stock_qty item_doc = 0 then pli_qty item_doc
      else pli_stock_qty item_doc)"

text \<open>
  \<^verbatim>\<open>get_items_with_location_and_quantity(item_doc, item_location_map, docstatus)\<close>.
  The map is mutated by the source and returned updated here. The flag of the unit of
  measure (\<^verbatim>\<open>frappe.get_cached_value("UOM", uom, "must_be_whole_number")\<close>) is a
  cached master-data read and comes as a function of the unit. A key that is absent and a
  key bound to \<^verbatim>\<open>None\<close> are both \<open>None\<close> here: \<^verbatim>\<open>.get\<close> and the truth
  test of the loop do not tell them apart.
\<close>

definition get_items_with_location_and_quantity ::
    "(string option \<Rightarrow> bool) \<Rightarrow> pick_list_item \<Rightarrow> (string \<rightharpoonup> item_location list) \<Rightarrow> int
       \<Rightarrow> result_row list \<times> (string \<rightharpoonup> item_location list)" where
  "get_items_with_location_and_quantity must_be_whole_number item_doc item_location_map docstatus =
     (case item_location_map (pli_item_code item_doc) of
        None \<Rightarrow> ([], item_location_map(pli_item_code item_doc := None))
      | Some available_locations \<Rightarrow>
          (case alloc_loop (must_be_whole_number (pli_uom item_doc))
                  (pli_conversion_factor item_doc)
                  (remaining_stock_qty item_doc docstatus) available_locations [] of
             (locations, available') \<Rightarrow>
               (locations, item_location_map(pli_item_code item_doc \<mapsto> available'))))"

text \<open>
  The row that the provider for untracked items returns for one warehouse
  (\<^verbatim>\<open>select bin.warehouse, bin.actual_qty as qty\<close>, lines 805--821).
\<close>

definition untracked_candidate :: "string \<Rightarrow> rat \<Rightarrow> item_location" where
  "untracked_candidate w q =
     \<lparr>il_warehouse = Some w, il_qty = q, il_item_code = None, il_serial_no = None,
      il_serial_and_batch_bundle = None\<rparr>"

section \<open>Rebuilding the locations of a pick list\<close>

text \<open>
  What the source raises: \<^verbatim>\<open>frappe.throw\<close> with one of its messages, or a Python
  exception of an arithmetic or library call.
\<close>

datatype error =
    QtyOfFinishedGoodsRequired
  | ItemCodeMandatory nat
  | PickingMoreThanRequired string "string option"
  | ZeroDivisionError
  | ValueError

text \<open>What \<^verbatim>\<open>frappe.msgprint\<close> shows without stopping the run.\<close>

datatype message = OutOfStock

text \<open>
  The reads of master data and stock that the methods make through the framework. They do
  not change during one call, so they come as functions:
  \<^item> \<open>db_is_stock_item\<close>: \<^verbatim>\<open>cint(get_cached_value("Item", code, "is_stock_item"))\<close>;
  \<^item> \<open>db_product_bundle_exists\<close>: an enabled Product Bundle exists for the code;
  \<^item> \<open>db_must_be_whole_number\<close>: the flag of a unit of measure;
  \<^item> \<open>db_stock_qty_precision\<close>: \<^verbatim>\<open>item.precision("stock_qty")\<close>;
  \<^item> \<open>db_available_item_locations\<close>: the candidates that
    \<^verbatim>\<open>get_available_item_locations\<close> returns for an item code and the quantity counted for
    it in \<^verbatim>\<open>item_count_map\<close>.
\<close>

record stock_db =
  db_is_stock_item :: "string \<Rightarrow> bool"
  db_product_bundle_exists :: "string \<Rightarrow> bool"
  db_must_be_whole_number :: "string option \<Rightarrow> bool"
  db_stock_qty_precision :: "nat option"
  db_available_item_locations :: "string \<Rightarrow> rat option \<Rightarrow> item_location list"

text \<open>The fields of the document that \<^verbatim>\<open>set_item_locations\<close> reads and writes.\<close>

record pick_list =
  pl_purpose :: string
  pl_for_qty :: "rat option"
  pl_docstatus :: int
  pl_locations :: "pick_list_item list"

text \<open>
  Modelled from the spec: \<^verbatim>\<open>frappe.utils.flt\<close> with a precision, which is library code
  and not under \<^verbatim>\<open>src/\<close>: the number rounded to that many decimals. Ties go to the
  even digit, the framework's default rounding method. Without a precision the number is
  returned as it is.
\<close>

definition round_half_even :: "rat \<Rightarrow> int" where
  "round_half_even x =
     (let f = \<lfloor>x\<rfloor>; d = x - of_int f
      in if d < 1 / 2 then f else if 1 / 2 < d then f + 1
         else if even f then f else f + 1)"

definition rounded :: "rat \<Rightarrow> nat \<Rightarrow> rat" where
  "rounded x p = of_int (round_half_even (x * 10 ^ p)) / 10 ^ p"

definition flt :: "rat \<Rightarrow> nat option \<Rightarrow> rat" where
  "flt x precision = (case precision of None \<Rightarrow> x | Some p \<Rightarrow> rounded x p)"

text \<open>Python's \<^verbatim>\<open>a or b\<close> on optional strings: \<^verbatim>\<open>None\<close> and \<^verbatim>\<open>""\<close> are false.\<close>

definition py_or :: "string option \<Rightarrow> string option \<Rightarrow> string option" where
  "py_or a b = (case a of None \<Rightarrow> b | Some s \<Rightarrow> if s = [] then b else a)"

subsection \<open>\<^verbatim>\<open>validate_for_qty\<close>\<close>

definition validate_for_qty :: "pick_list \<Rightarrow> error + unit" where
  "validate_for_qty doc =
     (if pl_purpose doc = ''Material Transfer for Manufacture''
         \<and> (pl_for_qty doc = None \<or> pl_for_qty doc = Some 0)
      then Inl QtyOfFinishedGoodsRequired else Inr ())"

subsection \<open>\<^verbatim>\<open>aggregate_item_qty\<close>\<close>

text \<open>
  The keys of \<^verbatim>\<open>item_map\<close> (line 377):
  \<^verbatim>\<open>(item_code, uom, warehouse, batch_no, reference)\<close>.
\<close>

type_synonym item_key = "string \<times> string option \<times> string option \<times> string option \<times> string option"

definition item_key_of :: "pick_list_item \<Rightarrow> item_key" where
  "item_key_of item =
     (pli_item_code item, pli_uom item, pli_warehouse item, pli_batch_no item,
      py_or (pli_sales_order_item item) (pli_material_request_item item))"

text \<open>
  The values of \<^verbatim>\<open>item_map\<close> are the row documents themselves, so adding to
  \<^verbatim>\<open>item_map[key].qty\<close> changes the first row of the group inside the list
  \<^verbatim>\<open>locations\<close> as well. The state therefore holds the rows, and the ordered map holds
  the position of the first row of each key.
\<close>

record agg_state =
  agg_rows :: "pick_list_item list"
  agg_item_map :: "(item_key \<times> nat) list"
  agg_item_count_map :: "string \<rightharpoonup> rat"

text \<open>
  Lines 375--390 for one row that is kept, at position \<open>i\<close> of the list: the row joins
  the group of its key or opens one, and its rounded stock quantity is added to the count
  of its item.
\<close>

definition aggregate_row :: "stock_db \<Rightarrow> nat \<Rightarrow> pick_list_item \<Rightarrow> agg_state \<Rightarrow> agg_state" where
  "aggregate_row db i item st =
     (let key = item_key_of item;
          add = flt (pli_stock_qty item) (db_stock_qty_precision db);
          st1 = (case map_of (agg_item_map st) key of
                   Some j \<Rightarrow>
                     st\<lparr>agg_rows := (agg_rows st)
                          [j := (agg_rows st ! j)
                             \<lparr>pli_qty := pli_qty (agg_rows st ! j) + pli_qty item,
                              pli_stock_qty := pli_stock_qty (agg_rows st ! j) + add\<rparr>]\<rparr>
                 | None \<Rightarrow> st\<lparr>agg_item_map := agg_item_map st @ [(key, i)]\<rparr>);
          count = (case agg_item_count_map st1 (pli_item_code item) of
                     None \<Rightarrow> 0 | Some c \<Rightarrow> c)
      in st1\<lparr>agg_item_count_map :=
               (agg_item_count_map st1)(pli_item_code item \<mapsto> count + add)\<rparr>)"

text \<open>
  The loop of lines 366--390 from position \<open>i\<close> on. A row without item code raises; the
  error carries the position of the row (the message shows the row's \<^verbatim>\<open>idx\<close>). A row
  that is neither a stock item nor an enabled bundle is skipped. A row that is processed
  has not been changed before: only first rows of earlier groups are.
\<close>

fun aggregate_from :: "stock_db \<Rightarrow> nat \<Rightarrow> pick_list_item list \<Rightarrow> agg_state \<Rightarrow> error + agg_state" where
  "aggregate_from db i [] st = Inr st"
| "aggregate_from db i (item # rest) st =
     (if pli_item_code item = [] then Inl (ItemCodeMandatory i)
      else if \<not> db_is_stock_item db (pli_item_code item)
              \<and> \<not> db_product_bundle_exists db (pli_item_code item)
      then aggregate_from db (Suc i) rest st
      else aggregate_from db (Suc i) rest (aggregate_row db i item st))"

definition aggregate_item_qty :: "stock_db \<Rightarrow> pick_list_item list \<Rightarrow> error + agg_state" where
  "aggregate_item_qty db locations =
     aggregate_from db 0 locations
       \<lparr>agg_rows = locations, agg_item_map = [], agg_item_count_map = Map.empty\<rparr>"

text \<open>\<^verbatim>\<open>item_map.values()\<close>: the first rows of the groups, in the order the keys came.\<close>

definition item_map_values :: "agg_state \<Rightarrow> pick_list_item list" where
  "item_map_values st = map (\<lambda>(key, j). agg_rows st ! j) (agg_item_map st)"

subsection \<open>Allocation and merge (lines 298--341)\<close>

text \<open>
  The keys of \<^verbatim>\<open>updated_locations\<close> (lines 322--329):
  \<^verbatim>\<open>(item_code, warehouse, uom, batch_no, serial_no, reference)\<close>.
\<close>

type_synonym location_key =
  "string \<times> string option \<times> string option \<times> string option \<times> string option \<times> string option"

definition location_key_of :: "pick_list_item \<Rightarrow> location_key" where
  "location_key_of location =
     (pli_item_code location, pli_warehouse location, pli_uom location, pli_batch_no location,
      pli_serial_no location,
      py_or (pli_sales_order_item location) (pli_material_request_item location))"

text \<open>\<^verbatim>\<open>location = item_doc.as_dict(); location.update(row)\<close> (lines 320--321).\<close>

definition as_location :: "pick_list_item \<Rightarrow> result_row \<Rightarrow> pick_list_item" where
  "as_location item_doc row =
     item_doc\<lparr>pli_qty := rr_qty row, pli_stock_qty := rr_stock_qty row,
       pli_warehouse := rr_warehouse row,
       pli_serial_and_batch_bundle := rr_serial_and_batch_bundle row\<rparr>"

text \<open>
  Lines 331--335 on the insertion-ordered dict \<^verbatim>\<open>updated_locations\<close>: a new key is
  appended with the location, a known key gets the quantities added.
\<close>

fun add_quantities ::
    "location_key \<Rightarrow> pick_list_item \<Rightarrow> (location_key \<times> pick_list_item) list
       \<Rightarrow> (location_key \<times> pick_list_item) list" where
  "add_quantities key location [] = []"
| "add_quantities key location ((k, l) # updated_locations) =
     (if k = key
      then (k, l\<lparr>pli_qty := pli_qty l + pli_qty location,
                 pli_stock_qty := pli_stock_qty l + pli_stock_qty location\<rparr>) # updated_locations
      else (k, l) # add_quantities key location updated_locations)"

definition merge_location ::
    "pick_list_item \<Rightarrow> (location_key \<times> pick_list_item) list
       \<Rightarrow> (location_key \<times> pick_list_item) list" where
  "merge_location location updated_locations =
     (let key = location_key_of location
      in if key \<notin> fst ` set updated_locations then updated_locations @ [(key, location)]
         else add_quantities key location updated_locations)"

text \<open>
  The loop over the aggregated items (lines 298--335). The candidates of an item are
  fetched once (\<^verbatim>\<open>setdefault\<close>), the allocator consumes them, and every row it returns
  is merged into \<^verbatim>\<open>updated_locations\<close>.
\<close>

fun allocate_items ::
    "stock_db \<Rightarrow> int \<Rightarrow> (string \<rightharpoonup> rat) \<Rightarrow> pick_list_item list
       \<Rightarrow> (string \<rightharpoonup> item_location list) \<Rightarrow> (location_key \<times> pick_list_item) list
       \<Rightarrow> (string \<rightharpoonup> item_location list) \<times> (location_key \<times> pick_list_item) list" where
  "allocate_items db docstatus item_count_map [] item_location_map updated_locations =
     (item_location_map, updated_locations)"
| "allocate_items db docstatus item_count_map (item_doc # items) item_location_map updated_locations =
     (let item_code = pli_item_code item_doc;
          m1 = (case item_location_map item_code of
                  None \<Rightarrow> item_location_map(item_code \<mapsto>
                             db_available_item_locations db item_code (item_count_map item_code))
                | Some l \<Rightarrow> item_location_map)
      in case get_items_with_location_and_quantity (db_must_be_whole_number db) item_doc m1 docstatus of
           (locations, m2) \<Rightarrow>
             allocate_items db docstatus item_count_map items m2
               (fold merge_location (map (as_location item_doc) locations) updated_locations))"

text \<open>Lines 337--339: a picked quantity above the stock quantity is lowered to it.\<close>

definition clamp_picked_qty :: "pick_list_item \<Rightarrow> pick_list_item" where
  "clamp_picked_qty location =
     (if pli_picked_qty location > pli_stock_qty location
      then location\<lparr>pli_picked_qty := pli_stock_qty location\<rparr> else location)"

text \<open>Lines 346--349: a row of the replica with both quantities set to zero.\<close>

definition zero_quantities :: "pick_list_item \<Rightarrow> pick_list_item" where
  "zero_quantities location = location\<lparr>pli_stock_qty := 0, pli_picked_qty := 0\<rparr>"

text \<open>
  \<^verbatim>\<open>updated_locations\<close> after the loop, for the rows and counts that
  \<^verbatim>\<open>aggregate_item_qty\<close> left.
\<close>

definition updated_locations :: "stock_db \<Rightarrow> int \<Rightarrow> agg_state \<Rightarrow> (location_key \<times> pick_list_item) list" where
  "updated_locations db docstatus st =
     snd (allocate_items db docstatus (agg_item_count_map st) (item_map_values st) Map.empty [])"

text \<open>
  \<^verbatim>\<open>set_item_locations\<close>. The replica of line 292 is the list object that
  \<^verbatim>\<open>aggregate_item_qty\<close> has worked on, so it is the row list of the aggregation state.
  The result is the document with its new locations and the message shown by the method
  itself. Saving the document (\<^verbatim>\<open>save=True\<close>) and the deletion of tracking bundles
  are the framework's.
\<close>

definition set_item_locations :: "stock_db \<Rightarrow> pick_list \<Rightarrow> error + pick_list \<times> message list" where
  "set_item_locations db doc =
     (case validate_for_qty doc of
        Inl e \<Rightarrow> Inl e
      | Inr u \<Rightarrow>
          (case aggregate_item_qty db (pl_locations doc) of
             Inl e \<Rightarrow> Inl e
           | Inr st \<Rightarrow>
               (let locations_replica = agg_rows st;
                    locations = map (clamp_picked_qty \<circ> snd)
                                  (updated_locations db (pl_docstatus doc) st)
                in if locations = [] \<and> pl_docstatus doc = 1
                   then Inr (doc\<lparr>pl_locations := map zero_quantities locations_replica\<rparr>,
                             [OutOfStock])
                   else Inr (doc\<lparr>pl_locations := locations\<rparr>, []))))"

subsection \<open>The merge as a function of the allocated rows\<close>

text \<open>
  The merge of lines 319--341 on its own: the rows built by lines 320--321 are merged by
  key and then clamped. \<open>allocated_from\<close> lists those rows in the order the loop
  builds them; it follows \<open>allocate_items\<close> and leaves the merge out.
\<close>

definition merge_step :: "pick_list_item list \<Rightarrow> pick_list_item list" where
  "merge_step locations = map (clamp_picked_qty \<circ> snd) (fold merge_location locations [])"

fun allocated_from ::
    "stock_db \<Rightarrow> int \<Rightarrow> (string \<rightharpoonup> rat) \<Rightarrow> pick_list_item list
       \<Rightarrow> (string \<rightharpoonup> item_location list) \<Rightarrow> pick_list_item list" where
  "allocated_from db docstatus item_count_map [] item_location_map = []"
| "allocated_from db docstatus item_count_map (item_doc # items) item_location_map =
     (let item_code = pli_item_code item_doc;
          m1 = (case item_location_map item_code of
                  None \<Rightarrow> item_location_map(item_code \<mapsto>
                             db_available_item_locations db item_code (item_count_map item_code))
                | Some l \<Rightarrow> item_location_map)
      in case get_items_with_location_and_quantity (db_must_be_whole_number db) item_doc m1 docstatus of
           (locations, m2) \<Rightarrow>
             map (as_location item_doc) locations
             @ allocated_from db docstatus item_count_map items m2)"

definition allocated_locations :: "stock_db \<Rightarrow> int \<Rightarrow> agg_state \<Rightarrow> pick_list_item list" where
  "allocated_locations db docstatus st =
     allocated_from db docstatus (agg_item_count_map st) (item_map_values st) Map.empty"

text \<open>
  Entries of \<^verbatim>\<open>updated_locations\<close>: pairwise different keys, each the key of its row.
\<close>

definition keyed :: "(location_key \<times> pick_list_item) list \<Rightarrow> bool" where
  "keyed upd \<longleftrightarrow> distinct (map fst upd) \<and> list_all (\<lambda>(k, l). location_key_of l = k) upd"

text \<open>Two rows that differ at most in \<^verbatim>\<open>qty\<close> and \<^verbatim>\<open>stock_qty\<close>.\<close>

definition up_to_quantities :: "pick_list_item \<Rightarrow> pick_list_item \<Rightarrow> bool" where
  "up_to_quantities a b \<longleftrightarrow> a\<lparr>pli_qty := pli_qty b, pli_stock_qty := pli_stock_qty b\<rparr> = b"

text \<open>
  The allocated rows of one key, and a row with the quantities of further rows added.
\<close>

definition group_of :: "location_key \<Rightarrow> pick_list_item list \<Rightarrow> pick_list_item list" where
  "group_of k locations = filter (\<lambda>l. location_key_of l = k) locations"

definition summed :: "pick_list_item \<Rightarrow> pick_list_item list \<Rightarrow> pick_list_item" where
  "summed x g = x\<lparr>pli_qty := pli_qty x + sum_list (map pli_qty g),
                  pli_stock_qty := pli_stock_qty x + sum_list (map pli_stock_qty g)\<rparr>"

section \<open>Picked quantity of product bundles\<close>

text \<open>
  \<^verbatim>\<open>_get_product_bundles\<close>: a dict from the sales order row of a bundle to the item code
  of that row (read from the Sales Order Item), in the order the rows first occur. A
  later row of the same bundle assigns the same key again.
\<close>

fun dict_set :: "'k \<Rightarrow> 'v \<Rightarrow> ('k \<times> 'v) list \<Rightarrow> ('k \<times> 'v) list" where
  "dict_set k v [] = [(k, v)]"
| "dict_set k v ((k', v') # d) = (if k' = k then (k, v) # d else (k', v') # dict_set k v d)"

fun get_product_bundles_from ::
    "(string \<Rightarrow> string) \<Rightarrow> pick_list_item list \<Rightarrow> (string \<times> string) list
       \<Rightarrow> (string \<times> string) list" where
  "get_product_bundles_from so_item_code [] product_bundles = product_bundles"
| "get_product_bundles_from so_item_code (item # locations) product_bundles =
     (case pli_product_bundle_item item of
        None \<Rightarrow> get_product_bundles_from so_item_code locations product_bundles
      | Some so_row \<Rightarrow>
          if so_row = [] then get_product_bundles_from so_item_code locations product_bundles
          else get_product_bundles_from so_item_code locations
                 (dict_set so_row (so_item_code so_row) product_bundles))"

definition get_product_bundles :: "(string \<Rightarrow> string) \<Rightarrow> pick_list_item list \<Rightarrow> (string \<times> string) list" where
  "get_product_bundles so_item_code locations = get_product_bundles_from so_item_code locations []"

text \<open>
  Lines 522--530: for every row of the bundle, the number of bundles its picked quantity
  is good for; 0 when the bundle has no quantity for the row's item, or a zero one.
\<close>

definition possible_bundles ::
    "pick_list_item list \<Rightarrow> string \<Rightarrow> (string \<rightharpoonup> rat) \<Rightarrow> rat list" where
  "possible_bundles locations bundle_row bundle_items =
     map (\<lambda>item. case bundle_items (pli_item_code item) of
                    None \<Rightarrow> 0
                  | Some qty_in_bundle \<Rightarrow>
                      if qty_in_bundle = 0 then 0 else pli_picked_qty item / qty_in_bundle)
       (filter (\<lambda>item. pli_product_bundle_item item = Some bundle_row) locations)"

text \<open>Python's \<^verbatim>\<open>min\<close> of a list: \<^verbatim>\<open>ValueError\<close> on the empty list.\<close>

definition py_min :: "rat list \<Rightarrow> error + rat" where
  "py_min xs = (case xs of [] \<Rightarrow> Inl ValueError | x # ys \<Rightarrow> Inr (fold min ys x))"

text \<open>
  \<^verbatim>\<open>_compute_picked_qty_for_bundle\<close>. The precision is what
  \<^verbatim>\<open>frappe.get_precision("Stock Ledger Entry", "qty_after_transaction")\<close> returns;
  \<^verbatim>\<open>precision or 6\<close> replaces \<^verbatim>\<open>None\<close> and 0 by 6.
\<close>

definition precision_or_6 :: "nat option \<Rightarrow> nat" where
  "precision_or_6 precision = (case precision of None \<Rightarrow> 6 | Some p \<Rightarrow> if p = 0 then 6 else p)"

definition compute_picked_qty_for_bundle ::
    "nat option \<Rightarrow> pick_list_item list \<Rightarrow> string \<Rightarrow> (string \<rightharpoonup> rat) \<Rightarrow> error + int" where
  "compute_picked_qty_for_bundle precision locations bundle_row bundle_items =
     (case py_min (possible_bundles locations bundle_row bundle_items) of
        Inl e \<Rightarrow> Inl e
      | Inr m \<Rightarrow> Inr (py_int (flt m (Some (precision_or_6 precision)))))"

text \<open>
  \<^verbatim>\<open>update_bundle_picked_qty\<close>. The picked quantities of the Sales Order Items are a
  function from row name to quantity, returned updated. \<open>bundle_qty_map\<close> gives the
  component quantities of the enabled Product Bundle of an item code
  (\<^verbatim>\<open>_get_product_bundle_qty_map\<close>).
\<close>

fun update_bundle_rows ::
    "nat option \<Rightarrow> (string \<Rightarrow> (string \<rightharpoonup> rat)) \<Rightarrow> int \<Rightarrow> pick_list_item list
       \<Rightarrow> (string \<times> string) list \<Rightarrow> (string \<Rightarrow> rat) \<Rightarrow> error + (string \<Rightarrow> rat)" where
  "update_bundle_rows precision bundle_qty_map docstatus locations [] so_picked_qty =
     Inr so_picked_qty"
| "update_bundle_rows precision bundle_qty_map docstatus locations ((so_row, item_code) # rest)
       so_picked_qty =
     (case compute_picked_qty_for_bundle precision locations so_row (bundle_qty_map item_code) of
        Inl e \<Rightarrow> Inl e
      | Inr picked_qty \<Rightarrow>
          update_bundle_rows precision bundle_qty_map docstatus locations rest
            (so_picked_qty(so_row := so_picked_qty so_row
                + of_int picked_qty * (if docstatus = 1 then 1 else - 1))))"

definition update_bundle_picked_qty ::
    "nat option \<Rightarrow> (string \<Rightarrow> string) \<Rightarrow> (string \<Rightarrow> (string \<rightharpoonup> rat)) \<Rightarrow> pick_list
       \<Rightarrow> (string \<Rightarrow> rat) \<Rightarrow> error + (string \<Rightarrow> rat)" where
  "update_bundle_picked_qty precision so_item_code bundle_qty_map doc so_picked_qty =
     update_bundle_rows precision bundle_qty_map (pl_docstatus doc) (pl_locations doc)
       (get_product_bundles so_item_code (pl_locations doc)) so_picked_qty"

text \<open>
  The count in closed form, for a bundle with at least one row: the least of the quotients,
  put through the same rounding and truncation. The proofs about
  \<^verbatim>\<open>update_bundle_picked_qty\<close> go through it.
\<close>

definition least_quotient_count ::
    "nat option \<Rightarrow> pick_list_item list \<Rightarrow> string \<Rightarrow> (string \<rightharpoonup> rat) \<Rightarrow> int" where
  "least_quotient_count precision locations bundle_row bundle_items =
     py_int (rounded
       (Min ((\<lambda>item. case bundle_items (pli_item_code item) of
                       None \<Rightarrow> 0
                     | Some required \<Rightarrow> if required = 0 then 0 else pli_picked_qty item / required)
             ` {item \<in> set locations. pli_product_bundle_item item = Some bundle_row}))
       (precision_or_6 precision))"

section \<open>The guard against picking more than required\<close>

text \<open>
  A row of the result of \<^verbatim>\<open>get_picked_items_qty\<close>: one group of submitted Pick List
  Items with the same \<^verbatim>\<open>sales_order_item\<close> and \<^verbatim>\<open>sales_order\<close>.
\<close>

record picked_row =
  pr_sales_order_item :: "string option"
  pr_item_code :: string
  pr_sales_order :: "string option"
  pr_stock_qty :: rat
  pr_picked_qty :: rat

text \<open>
  \<^verbatim>\<open>get_picked_items_qty(items)\<close> on the table of Pick List Items, each row with its
  docstatus: the rows with docstatus 1 whose \<^verbatim>\<open>sales_order_item\<close> is one of
  \<^verbatim>\<open>items\<close>, grouped by \<^verbatim>\<open>(sales_order_item, sales_order)\<close>, with the sums of
  \<^verbatim>\<open>stock_qty\<close> and \<^verbatim>\<open>picked_qty\<close> of each group. The item code, which the query
  selects without aggregating it, is that of the first row of the group; the groups come
  in the order of their first rows. The row lock (\<^verbatim>\<open>for_update\<close>) has no counterpart.
\<close>

definition selected_rows :: "(int \<times> pick_list_item) list \<Rightarrow> string list \<Rightarrow> pick_list_item list" where
  "selected_rows pick_list_items items =
     map snd (filter (\<lambda>(docstatus, row). docstatus = 1
                        \<and> (case pli_sales_order_item row of
                              None \<Rightarrow> False | Some name \<Rightarrow> name \<in> set items))
                pick_list_items)"

definition group_key :: "pick_list_item \<Rightarrow> string option \<times> string option" where
  "group_key row = (pli_sales_order_item row, pli_sales_order row)"

fun first_keys :: "'k list \<Rightarrow> 'k list \<Rightarrow> 'k list" where
  "first_keys seen [] = []"
| "first_keys seen (k # ks) =
     (if k \<in> set seen then first_keys seen ks else k # first_keys (k # seen) ks)"

definition get_picked_items_qty :: "(int \<times> pick_list_item) list \<Rightarrow> string list \<Rightarrow> picked_row list" where
  "get_picked_items_qty pick_list_items items =
     (let rows = selected_rows pick_list_items items
      in map (\<lambda>key.
                let group = filter (\<lambda>row. group_key row = key) rows
                in \<lparr>pr_sales_order_item = fst key,
                    pr_item_code = pli_item_code (hd group),
                    pr_sales_order = snd key,
                    pr_stock_qty = sum_list (map pli_stock_qty group),
                    pr_picked_qty = sum_list (map pli_picked_qty group)\<rparr>)
           (first_keys [] (map group_key rows)))"

text \<open>
  The quantities that \<^verbatim>\<open>validate_picked_qty\<close> compares are Python floats: IEEE 754
  binary64 numbers, on which every operation returns the exact result rounded to the
  nearest number with 53 significant bits, ties to the even one. \<open>double_round\<close> is that
  rounding for magnitudes in the normal range of the format (no overflow, no subnormal
  numbers), which is where quantities and percentages lie. \<open>binade x\<close> is the exponent
  \<open>e\<close> with \<open>2 ^ e \<le> \<bar>x\<bar> < 2 ^ (e + 1)\<close>, and \<open>pow2 e\<close> is that power of two.
\<close>

function floor_log2 :: "int \<Rightarrow> int" where
  "floor_log2 n = (if n < 2 then 0 else 1 + floor_log2 (n div 2))"
  by auto

termination
  by (relation "measure nat") auto

declare floor_log2.simps [simp del]

definition pow2 :: "int \<Rightarrow> rat" where
  "pow2 e = (if 0 \<le> e then 2 ^ nat e else 1 / 2 ^ nat (- e))"

definition binade :: "rat \<Rightarrow> int" where
  "binade x =
     (case quotient_of \<bar>x\<bar> of
        (p, q) \<Rightarrow>
          (let e = floor_log2 p - floor_log2 q
           in if pow2 e \<le> \<bar>x\<bar> then e else e - 1))"

definition double_round :: "rat \<Rightarrow> rat" where
  "double_round x =
     (if x = 0 then 0
      else let ulp = pow2 (binade x - 52)
           in of_int (round_half_even (x / ulp)) * ulp)"

text \<open>
  \<^verbatim>\<open>validate_picked_qty(data)\<close>. The allowance is
  \<^verbatim>\<open>flt(get_single_value("Stock Settings", "over_delivery_receipt_allowance"))\<close>; it
  and the two sums of a row reach Python as floats, and line 273 divides, multiplies and
  compares them as floats. The division raises on a zero stock quantity.
\<close>

fun validate_picked_qty :: "rat \<Rightarrow> picked_row list \<Rightarrow> error + unit" where
  "validate_picked_qty allowance [] = Inr ()"
| "validate_picked_qty allowance (row # data) =
     (let over_delivery_receipt_allowance = double_round (100 + double_round allowance);
          picked_qty = double_round (pr_picked_qty row);
          stock_qty = double_round (pr_stock_qty row)
      in if stock_qty = 0 then Inl ZeroDivisionError
         else if double_round (double_round (picked_qty / stock_qty) * 100)
                   > over_delivery_receipt_allowance
         then Inl (PickingMoreThanRequired (pr_item_code row) (pr_sales_order row))
         else validate_picked_qty allowance data)"

text \<open>
  \<^verbatim>\<open>update_sales_order_item_qty(so_items)\<close>: the picked quantities of the Sales Order
  Items are written only after the validation has passed. A row without a group gets
  \<^verbatim>\<open>flt(None)\<close>, which is 0.
\<close>

definition update_sales_order_item_qty ::
    "rat \<Rightarrow> (int \<times> pick_list_item) list \<Rightarrow> string list \<Rightarrow> (string \<Rightarrow> rat)
       \<Rightarrow> error + (string \<Rightarrow> rat)" where
  "update_sales_order_item_qty allowance pick_list_items so_items so_picked_qty =
     (let picked_items = get_picked_items_qty pick_list_items so_items
      in case validate_picked_qty allowance picked_items of
           Inl e \<Rightarrow> Inl e
         | Inr u \<Rightarrow>
             (let picked_qty = fold (\<lambda>d m. m(pr_sales_order_item d \<mapsto> pr_picked_qty d))
                                 picked_items Map.empty
              in Inr (fold (\<lambda>so_item c.
                              c(so_item := (case picked_qty (Some so_item) of
                                              None \<Rightarrow> 0 | Some q \<Rightarrow> q)))
                        so_items so_picked_qty)))"

section \<open>Candidates of an item and quantities picked by other pick lists\<close>

text \<open>
  A row of the table \<^verbatim>\<open>Bin\<close>, with the company of its warehouse. The list is in the
  order of creation, the order of the query of lines 805--811.
\<close>

record bin =
  bin_item_code :: string
  bin_warehouse :: string
  bin_actual_qty :: rat
  bin_company :: string

text \<open>Python's truth test of an optional list: \<^verbatim>\<open>None\<close> and \<^verbatim>\<open>[]\<close> are false.\<close>

definition py_truthy :: "'a list option \<Rightarrow> bool" where
  "py_truthy xs = (case xs of None \<Rightarrow> False | Some l \<Rightarrow> l \<noteq> [])"

text \<open>
  \<^verbatim>\<open>get_available_item_locations_for_other_item\<close>: the bins of the item with a positive
  quantity, in the given warehouses or else in the warehouses of the company, at most
  \<^verbatim>\<open>cint(required_qty + total_picked_qty)\<close> of them.
\<close>

definition get_available_item_locations_for_other_item ::
    "bin list \<Rightarrow> string \<Rightarrow> string list option \<Rightarrow> rat \<Rightarrow> string \<Rightarrow> rat \<Rightarrow> item_location list" where
  "get_available_item_locations_for_other_item bins item_code from_warehouses required_qty company
       total_picked_qty =
     map (\<lambda>b. untracked_candidate (bin_warehouse b) (bin_actual_qty b))
       (take (nat (py_int (required_qty + total_picked_qty)))
          (filter (\<lambda>b. bin_item_code b = item_code \<and> bin_actual_qty b > 0
                        \<and> (if py_truthy from_warehouses
                            then bin_warehouse b \<in> set (the from_warehouses)
                            else bin_company b = company))
             bins))"

text \<open>
  One group of \<^verbatim>\<open>get_picked_items_details\<close> for an item: the key
  (warehouse, or warehouse and batch) and the quantity picked by other pick lists.
\<close>

type_synonym picked_detail = "(string option \<times> string option) \<times> rat"

text \<open>
  A Pick List Item of the table with the name and status of its pick list and its
  docstatus.
\<close>

record stored_item =
  si_parent :: string
  si_status :: string
  si_docstatus :: int
  si_row :: pick_list_item

text \<open>
  \<^verbatim>\<open>get_picked_items_details\<close> for one item code: the rows of that item in pick lists
  other than \<^verbatim>\<open>name\<close> that are neither completed nor cancelled, with a positive picked
  or stock quantity, grouped by warehouse and batch; a row counts with its picked quantity
  when that is positive, else with its stock quantity. Each group is stored under the key
  warehouse, or warehouse and batch when the batch is set (line 483), a later group of the
  same key replacing an earlier one. The serial numbers that the query also collects are
  left out: \<^verbatim>\<open>get_available_item_locations\<close> does not read them. The query takes no
  lock.
\<close>

definition counted_qty :: "pick_list_item \<Rightarrow> rat" where
  "counted_qty row = (if pli_picked_qty row > 0 then pli_picked_qty row else pli_stock_qty row)"

definition detail_group :: "pick_list_item \<Rightarrow> string option \<times> string option" where
  "detail_group row = (pli_warehouse row, pli_batch_no row)"

definition detail_key :: "string option \<times> string option \<Rightarrow> string option \<times> string option" where
  "detail_key g =
     (fst g, case snd g of None \<Rightarrow> None | Some b \<Rightarrow> if b = [] then None else Some b)"

definition get_picked_items_details ::
    "stored_item list \<Rightarrow> string option \<Rightarrow> string \<Rightarrow> picked_detail list" where
  "get_picked_items_details stored name item_code =
     (let rows = map si_row
            (filter (\<lambda>s. pli_item_code (si_row s) = item_code
                          \<and> (pli_picked_qty (si_row s) > 0 \<or> pli_stock_qty (si_row s) > 0)
                          \<and> si_status s \<noteq> ''Completed'' \<and> si_status s \<noteq> ''Cancelled''
                          \<and> si_docstatus s \<noteq> 2
                          \<and> (case name of None \<Rightarrow> True
                              | Some n \<Rightarrow> n = [] \<or> si_parent s \<noteq> n))
               stored)
      in fold (\<lambda>g picked_items.
                 dict_set (detail_key g)
                   (sum_list (map counted_qty (filter (\<lambda>row. detail_group row = g) rows)))
                   picked_items)
           (first_keys [] (map detail_group rows)) [])"

text \<open>
  \<^verbatim>\<open>get_available_item_locations\<close> for an item without serial or batch numbers, with the
  messages it shows. The quantities picked elsewhere raise the number of bins fetched and
  lead to the removal of candidates below 1; no candidate is reduced by them.
\<close>

datatype notice = InsufficientStock rat | AlreadyPicked rat

definition get_available_item_locations ::
    "bin list \<Rightarrow> string \<Rightarrow> string list option \<Rightarrow> rat \<Rightarrow> string \<Rightarrow> picked_detail list
       \<Rightarrow> item_location list \<times> notice list" where
  "get_available_item_locations bins item_code from_warehouses required_qty company
       picked_item_details =
     (let total_picked_qty = (if picked_item_details \<noteq> []
                               then sum_list (map snd picked_item_details) else 0);
          locations = get_available_item_locations_for_other_item bins item_code from_warehouses
                        required_qty company total_picked_qty;
          remaining_qty = required_qty - sum_list (map il_qty locations);
          notes1 = (if remaining_qty > 0 then [InsufficientStock remaining_qty] else [])
      in if picked_item_details \<noteq> [] then
           (let locations' = filter (\<lambda>location. \<not> il_qty location < 1) locations;
                remaining_qty' = required_qty - sum_list (map il_qty locations')
            in (locations',
                notes1 @ (if remaining_qty' > 0 then [AlreadyPicked remaining_qty'] else [])))
         else (locations, notes1))"

text \<open>
  The reads of \<^verbatim>\<open>set_item_locations\<close> for a company whose items carry no serial or batch
  numbers: the candidates of an item come from the bins and from the rows of the other
  pick lists. \<^verbatim>\<open>item_count_map\<close> holds every item code the loop asks for.
\<close>

definition untracked_stock_db ::
    "stock_db \<Rightarrow> bin list \<Rightarrow> stored_item list \<Rightarrow> string option \<Rightarrow> string list option \<Rightarrow> string
       \<Rightarrow> stock_db" where
  "untracked_stock_db db bins stored name from_warehouses company =
     db\<lparr>db_available_item_locations :=
          (\<lambda>item_code required.
             fst (get_available_item_locations bins item_code from_warehouses
                    (case required of None \<Rightarrow> 0 | Some r \<Rightarrow> r) company
                    (get_picked_items_details stored name item_code)))\<rparr>"

text \<open>The rows of a saved pick list as they stand in the table.\<close>

definition stored_as :: "string \<Rightarrow> string \<Rightarrow> pick_list \<Rightarrow> stored_item list" where
  "stored_as name status doc =
     map (\<lambda>row. \<lparr>si_parent = name, si_status = status, si_docstatus = pl_docstatus doc,
                  si_row = row\<rparr>) (pl_locations doc)"

section \<open>Example data\<close>

text \<open>A submitted line whose stored stock quantity is zero, and a serialized candidate.\<close>

definition restock_line :: pick_list_item where
  "restock_line = \<lparr>pli_item_code = ''ITEM-A'', pli_uom = Some ''Kg'', pli_warehouse = None,
     pli_batch_no = None, pli_serial_no = None, pli_sales_order = None,
     pli_sales_order_item = None, pli_material_request_item = None,
     pli_product_bundle_item = None, pli_qty = 5, pli_stock_qty = 0, pli_picked_qty = 0,
     pli_conversion_factor = 1, pli_serial_and_batch_bundle = None\<rparr>"

definition serial_candidate :: item_location where
  "serial_candidate = \<lparr>il_warehouse = Some ''Stores'', il_qty = 5, il_item_code = Some ''ITEM-S'',
     il_serial_no = Some [''SN1'', ''SN2'', ''SN3'', ''SN4'', ''SN5''],
     il_serial_and_batch_bundle = Some ''SABB-1''\<rparr>"

text \<open>
  A warehouse \<^verbatim>\<open>Stores\<close> holding 10 units of \<^verbatim>\<open>ITEM-A\<close>, the same master data with
  no stock at all, lines for that item, and a pick list for delivery.
\<close>

definition stores_db :: stock_db where
  "stores_db = \<lparr>db_is_stock_item = (\<lambda>code. True), db_product_bundle_exists = (\<lambda>code. False),
     db_must_be_whole_number = (\<lambda>u. False), db_stock_qty_precision = Some 3,
     db_available_item_locations =
       (\<lambda>code required. if code = ''ITEM-A'' then [untracked_candidate ''Stores'' 10] else [])\<rparr>"

definition empty_db :: stock_db where
  "empty_db = stores_db\<lparr>db_available_item_locations := (\<lambda>code required. [])\<rparr>"

definition line_a :: "string \<Rightarrow> rat \<Rightarrow> rat \<Rightarrow> pick_list_item" where
  "line_a w q p = \<lparr>pli_item_code = ''ITEM-A'', pli_uom = Some ''Kg'', pli_warehouse = Some w,
     pli_batch_no = None, pli_serial_no = None, pli_sales_order = Some ''SO-1'',
     pli_sales_order_item = Some ''SO-1-ROW-1'', pli_material_request_item = None,
     pli_product_bundle_item = None, pli_qty = q, pli_stock_qty = q, pli_picked_qty = p,
     pli_conversion_factor = 1, pli_serial_and_batch_bundle = None\<rparr>"

definition delivery :: "int \<Rightarrow> pick_list_item list \<Rightarrow> pick_list" where
  "delivery ds locs = \<lparr>pl_purpose = ''Delivery'', pl_for_qty = None, pl_docstatus = ds,
     pl_locations = locs\<rparr>"

text \<open>
  Two component rows of one product bundle; submitted and draft rows of one sales order
  row; a submitted row without stock quantity; a single bin of 10 units.
\<close>

definition component :: "string \<Rightarrow> rat \<Rightarrow> pick_list_item" where
  "component code picked = \<lparr>pli_item_code = code, pli_uom = Some ''Nos'',
     pli_warehouse = Some ''Stores'', pli_batch_no = None, pli_serial_no = None,
     pli_sales_order = Some ''SO-1'', pli_sales_order_item = Some ''SO-1-PACKED'',
     pli_material_request_item = None, pli_product_bundle_item = Some ''SO-1-BUNDLE'',
     pli_qty = picked, pli_stock_qty = picked, pli_picked_qty = picked,
     pli_conversion_factor = 1, pli_serial_and_batch_bundle = None\<rparr>"

definition submitted_rows :: "(int \<times> pick_list_item) list" where
  "submitted_rows = [(1, line_a ''Stores'' 10 8), (1, line_a ''Yard'' 10 14),
                     (0, line_a ''Yard'' 5 5)]"

definition unstocked_rows :: "(int \<times> pick_list_item) list" where
  "unstocked_rows = [(1, line_a ''Stores'' 0 1)]"

definition one_bin :: "bin list" where
  "one_bin = [\<lparr>bin_item_code = ''ITEM-A'', bin_warehouse = ''Stores'', bin_actual_qty = 10,
               bin_company = ''ACME''\<rparr>]"

section \<open>Properties of the allocator\<close>

text \<open>
  C1. An untracked item, one requirement line of stock quantity 10 with conversion factor
  1 in a unit that need not be whole, and the two candidates 4 and 20 in this order: the
  allocator returns the rows (first warehouse, 4) and (second warehouse, 6), and leaves
  exactly the second warehouse with 14 in the map.
\<close>

theorem scenario_two_warehouses:
  "get_items_with_location_and_quantity (\<lambda>u. False)
     (item_doc\<lparr>pli_stock_qty := 10, pli_conversion_factor := 1\<rparr>)
     (m(pli_item_code item_doc \<mapsto> [untracked_candidate w1 4, untracked_candidate w2 20]))
     docstatus
   = ([\<lparr>rr_qty = 4, rr_stock_qty = 4, rr_warehouse = Some w1,
         rr_serial_and_batch_bundle = None\<rparr>,
       \<lparr>rr_qty = 6, rr_stock_qty = 6, rr_warehouse = Some w2,
         rr_serial_and_batch_bundle = None\<rparr>],
      m(pli_item_code item_doc \<mapsto> [untracked_candidate w2 14]))"
  by (simp add: get_items_with_location_and_quantity_def remaining_stock_qty_def
      alloc_loop.simps alloc_step_def take_from_def requeue_def untracked_candidate_def)

subsection \<open>Facts about one pass of the loop\<close>

lemma floor_rat_divide_numeral [simp]:
  "\<lfloor>numeral a / numeral b :: rat\<rfloor> = numeral a div numeral b"
  using floor_divide_of_int_eq [of "numeral a" "numeral b", where ?'a = rat] by simp

lemma floor_rat_one_divide_numeral [simp]:
  "\<lfloor>1 / numeral b :: rat\<rfloor> = 1 div numeral b"
  using floor_divide_of_int_eq [of 1 "numeral b", where ?'a = rat] by simp

lemma alloc_step_Continue:
  "alloc_step wn cf r loc rest = Continue row r' avail' \<longleftrightarrow>
     (\<exists>q s. take_from wn cf r (il_qty loc) = Some (q, s)
        \<and> row = \<lparr>rr_qty = q, rr_stock_qty = s, rr_warehouse = il_warehouse loc,
                  rr_serial_and_batch_bundle = il_serial_and_batch_bundle loc\<rparr>
        \<and> r' = r - s \<and> avail' = requeue loc (il_qty loc - s) rest)"
  by (auto simp: alloc_step_def split: option.splits)

lemma alloc_step_Break:
  "alloc_step wn cf r loc rest = Break \<longleftrightarrow> take_from wn cf r (il_qty loc) = None"
  by (auto simp: alloc_step_def split: option.splits)

lemma alloc_step_whole_row:
  assumes "alloc_step True cf r loc rest = Continue row r' avail'"
  shows "rr_qty row = of_int \<lfloor>(if il_qty loc \<ge> r then r else il_qty loc) / (if cf = 0 then 1 else cf)\<rfloor>"
    and "rr_stock_qty row = rr_qty row * cf"
    and "rr_stock_qty row \<noteq> 0"
  using assms take_from_whole [of cf r "il_qty loc" "rr_qty row" "rr_stock_qty row"]
  by (auto simp: alloc_step_Continue)

lemma alloc_loop_rows_whole:
  assumes "wn" and "\<forall>row \<in> set acc. (\<exists>k::int. rr_qty row = of_int k) \<and> rr_stock_qty row = rr_qty row * cf"
  shows "\<forall>row \<in> set (fst (alloc_loop wn cf r avail acc)).
           (\<exists>k::int. rr_qty row = of_int k) \<and> rr_stock_qty row = rr_qty row * cf"
  using assms
proof (induction wn cf r avail acc rule: alloc_loop.induct)
  case (1 wn cf r acc)
  then show ?case by (simp add: alloc_loop.simps)
next
  case (2 wn cf r loc rest acc)
  show ?case
  proof (cases "0 < r")
    case False
    with "2.prems" show ?thesis by (simp add: alloc_loop.simps)
  next
    case True
    show ?thesis
    proof (cases "alloc_step wn cf r loc rest")
      case Break
      with True "2.prems" show ?thesis by (simp add: alloc_loop.simps)
    next
      case (Continue row r' avail')
      with "2.prems" have st: "alloc_step True cf r loc rest = Continue row r' avail'" by simp
      have "\<forall>x \<in> set (acc @ [row]). (\<exists>k::int. rr_qty x = of_int k) \<and> rr_stock_qty x = rr_qty x * cf"
        using "2.prems"(2) alloc_step_whole_row(1,2) [OF st] by auto
      with "2.IH" [OF True Continue "2.prems"(1)] True Continue
      show ?thesis by (simp add: alloc_loop.simps)
    qed
  qed
qed

lemma alloc_loop_break:
  assumes "0 < r" and "alloc_step wn cf r loc rest = Break"
  shows "alloc_loop wn cf r (loc # rest) acc = (acc, rest)"
  using assms by (simp add: alloc_loop.simps)

lemma alloc_loop_continue:
  assumes "0 < r" and "alloc_step wn cf r loc rest = Continue row r' avail'"
  shows "alloc_loop wn cf r (loc # rest) acc = alloc_loop wn cf r' avail' (acc @ [row])"
  using assms by (simp add: alloc_loop.simps)

lemma take_from_whole_zero:
  "\<lfloor>(if q \<ge> r then r else q) / (if cf = 0 then 1 else cf)\<rfloor> = 0 \<Longrightarrow> take_from True cf r q = None"
  by (simp add: take_from_def Let_def)

lemma py_slice_from_leftover:
  assumes "0 < d"
  shows "py_slice_from (- py_int d) xs
           = (if \<lfloor>d\<rfloor> = 0 then xs else drop (length xs - nat \<lfloor>d\<rfloor>) xs)"
proof (cases "\<lfloor>d\<rfloor> = 0")
  case True
  with assms have "py_int d = 0" by (simp only: py_int_def) simp
  then have "py_slice_from (- py_int d) xs = xs" by (simp add: py_slice_from_def)
  with True show ?thesis by simp
next
  case False
  from assms have "0 \<le> \<lfloor>d\<rfloor>" by simp
  with False have f0: "0 < \<lfloor>d\<rfloor>" by linarith
  from assms have pi: "py_int d = \<lfloor>d\<rfloor>" by (simp add: py_int_def)
  have "nat (int (length xs) - \<lfloor>d\<rfloor>) = length xs - nat \<lfloor>d\<rfloor>" using f0 by linarith
  with f0 have "py_slice_from (- py_int d) xs = drop (length xs - nat \<lfloor>d\<rfloor>) xs"
    by (simp only: py_slice_from_def pi) simp
  with False show ?thesis by simp
qed


text \<open>
  C2. In every pass of the loop that emits a row (the pass is not left by
  \<^verbatim>\<open>break\<close>) and in which the candidate keeps a positive difference
  \<^verbatim>\<open>item_location.qty - stock_qty\<close>, the candidate is shrunk to that difference and
  is the first element (position 0) of the candidate list the loop goes on with, before
  all the others. A candidate without a serial list keeps none. A serial list is cut to
  \<^verbatim>\<open>serial_no[-int(qty_diff):]\<close>: the last \<open>\<lfloor>qty_diff\<rfloor>\<close> entries, all of them when
  there are no more than that, and the whole list when the difference is below 1. So when
  the difference is a whole number \<open>n\<close> that does not exceed the number of serial
  numbers, the new list is the tail of length \<open>n\<close> of the old one.
\<close>

theorem leftover_requeued_in_front:
  assumes guard: "0 < r"
    and step: "alloc_step wn cf r loc rest = Continue row r' avail'"
    and leftover: "0 < il_qty loc - rr_stock_qty row"
  shows "(\<exists>shrunk. avail' = shrunk # rest \<and> avail' ! 0 = shrunk
            \<and> il_qty shrunk = il_qty loc - rr_stock_qty row
            \<and> il_warehouse shrunk = il_warehouse loc
            \<and> il_serial_and_batch_bundle shrunk = il_serial_and_batch_bundle loc
            \<and> alloc_loop wn cf r (loc # rest) acc
                = alloc_loop wn cf (r - rr_stock_qty row) (shrunk # rest) (acc @ [row])
            \<and> (il_serial_no loc = None \<longrightarrow> il_serial_no shrunk = None)
            \<and> (\<forall>sn. il_serial_no loc = Some sn \<longrightarrow>
                 il_serial_no shrunk
                   = Some (if \<lfloor>il_qty loc - rr_stock_qty row\<rfloor> = 0 then sn
                           else drop (length sn - nat \<lfloor>il_qty loc - rr_stock_qty row\<rfloor>) sn))
            \<and> (\<forall>sn n. il_serial_no loc = Some sn
                   \<and> il_qty loc - rr_stock_qty row = of_nat n \<and> n \<le> length sn \<longrightarrow>
                 il_serial_no shrunk = Some (drop (length sn - n) sn)
                 \<and> length (drop (length sn - n) sn) = n))"
proof -
  from step obtain q s where tf: "take_from wn cf r (il_qty loc) = Some (q, s)"
    and row: "rr_stock_qty row = s" and r': "r' = r - s"
    and avail': "avail' = requeue loc (il_qty loc - s) rest"
    by (auto simp: alloc_step_Continue)
  define d where "d = il_qty loc - s"
  from leftover row have d: "0 < d" by (simp add: d_def)
  define shrunk where "shrunk = hd avail'"
  from d avail' have av: "avail' = shrunk # rest"
    by (simp add: requeue_def shrunk_def d_def)
  have sh: "shrunk = loc\<lparr>il_qty := d, il_serial_no :=
            (case il_serial_no loc of None \<Rightarrow> None
             | Some sn \<Rightarrow> if sn = [] then Some sn else Some (py_slice_from (- py_int d) sn))\<rparr>"
    using d avail' unfolding requeue_def shrunk_def d_def by simp
  have loop: "alloc_loop wn cf r (loc # rest) acc
                = alloc_loop wn cf (r - rr_stock_qty row) (shrunk # rest) (acc @ [row])"
    using alloc_loop_continue [OF guard step, of acc] by (simp add: av r' row)
  have none: "il_serial_no shrunk = None" if "il_serial_no loc = None"
    using that by (simp add: sh)
  have slice: "il_serial_no shrunk
                 = Some (if \<lfloor>d\<rfloor> = 0 then sn else drop (length sn - nat \<lfloor>d\<rfloor>) sn)"
    if h: "il_serial_no loc = Some sn" for sn
  proof (cases "sn = []")
    case True
    with h show ?thesis by (simp add: sh)
  next
    case False
    with h have "il_serial_no shrunk = Some (py_slice_from (- py_int d) sn)"
      by (simp add: sh)
    with py_slice_from_leftover [OF d, of sn] show ?thesis by simp
  qed
  have serial: "il_serial_no shrunk = Some (drop (length sn - n) sn)
                 \<and> length (drop (length sn - n) sn) = n"
    if h: "il_serial_no loc = Some sn \<and> d = of_nat n \<and> n \<le> length sn" for sn n
  proof -
    from h have dn: "d = of_nat n" and nle: "n \<le> length sn" by simp_all
    with d have n0: "0 < n" by simp
    from h have "il_serial_no shrunk
                 = Some (if \<lfloor>d\<rfloor> = 0 then sn else drop (length sn - nat \<lfloor>d\<rfloor>) sn)"
      by (simp add: slice)
    with n0 nle show ?thesis by (simp add: dn)
  qed
  show ?thesis
    apply (rule exI [of _ shrunk])
    using av loop serial slice none by (simp add: sh d_def row)
qed

theorem leftover_requeued_in_front_witness:
  "alloc_step False 1 3 serial_candidate [untracked_candidate ''Yard'' 9]
     = Continue \<lparr>rr_qty = 3, rr_stock_qty = 3, rr_warehouse = Some ''Stores'',
          rr_serial_and_batch_bundle = Some ''SABB-1''\<rparr> 0
        [serial_candidate\<lparr>il_qty := 2, il_serial_no := Some [''SN4'', ''SN5'']\<rparr>,
         untracked_candidate ''Yard'' 9]
   \<and> alloc_loop False 1 3 [serial_candidate, untracked_candidate ''Yard'' 9] []
     = ([\<lparr>rr_qty = 3, rr_stock_qty = 3, rr_warehouse = Some ''Stores'',
          rr_serial_and_batch_bundle = Some ''SABB-1''\<rparr>],
        [serial_candidate\<lparr>il_qty := 2, il_serial_no := Some [''SN4'', ''SN5'']\<rparr>,
         untracked_candidate ''Yard'' 9])"
proof -
  have step: "alloc_step False 1 3 serial_candidate [untracked_candidate ''Yard'' 9]
     = Continue \<lparr>rr_qty = 3, rr_stock_qty = 3, rr_warehouse = Some ''Stores'',
          rr_serial_and_batch_bundle = Some ''SABB-1''\<rparr> 0
        [serial_candidate\<lparr>il_qty := 2, il_serial_no := Some [''SN4'', ''SN5'']\<rparr>,
         untracked_candidate ''Yard'' 9]"
    by (simp add: alloc_step_def take_from_def requeue_def serial_candidate_def
        py_slice_from_def py_int_def)
  have left: "0 < il_qty serial_candidate
        - rr_stock_qty \<lparr>rr_qty = 3, rr_stock_qty = 3, rr_warehouse = Some ''Stores'',
          rr_serial_and_batch_bundle = Some ''SABB-1''\<rparr>"
    by (simp add: serial_candidate_def)
  from leftover_requeued_in_front [OF _ step left, of "[]"]
  show ?thesis using step
    by (simp add: alloc_loop.simps [of _ _ 0] serial_candidate_def)
qed

text \<open>
  The length of the requeued serial list is not the leftover quantity when the leftover
  is not a whole number. A candidate of 5 units with five serial numbers, asked for 4.5
  units, goes back with quantity 0.5 and all five serial numbers
  (\<^verbatim>\<open>serial_no[-0:]\<close> is the whole list); asked for 2.5 units, it goes back with
  quantity 2.5 and two serial numbers.
\<close>

theorem fractional_leftover_counterexample:
  "alloc_step False 1 (9 / 2) serial_candidate [untracked_candidate ''Yard'' 9]
     = Continue \<lparr>rr_qty = 9 / 2, rr_stock_qty = 9 / 2, rr_warehouse = Some ''Stores'',
          rr_serial_and_batch_bundle = Some ''SABB-1''\<rparr> 0
        [\<lparr>il_warehouse = Some ''Stores'', il_qty = 1 / 2, il_item_code = Some ''ITEM-S'',
          il_serial_no = Some [''SN1'', ''SN2'', ''SN3'', ''SN4'', ''SN5''],
          il_serial_and_batch_bundle = Some ''SABB-1''\<rparr>,
         untracked_candidate ''Yard'' 9]
   \<and> alloc_step False 1 (5 / 2) serial_candidate [untracked_candidate ''Yard'' 9]
     = Continue \<lparr>rr_qty = 5 / 2, rr_stock_qty = 5 / 2, rr_warehouse = Some ''Stores'',
          rr_serial_and_batch_bundle = Some ''SABB-1''\<rparr> 0
        [\<lparr>il_warehouse = Some ''Stores'', il_qty = 5 / 2, il_item_code = Some ''ITEM-S'',
          il_serial_no = Some [''SN4'', ''SN5''],
          il_serial_and_batch_bundle = Some ''SABB-1''\<rparr>,
         untracked_candidate ''Yard'' 9]
   \<and> of_nat (length [''SN1'', ''SN2'', ''SN3'', ''SN4'', ''SN5'']) \<noteq> (1 / 2 :: rat)
   \<and> of_nat (length [''SN4'', ''SN5'']) \<noteq> (5 / 2 :: rat)"
  by (simp add: alloc_step_def take_from_def requeue_def serial_candidate_def
      py_slice_from_def py_int_def Let_def)


text \<open>
  C3. For a line whose unit of measure must be a whole number, every row the allocator
  emits has an integer quantity and a stock quantity equal to that quantity times the
  conversion factor; in each pass the quantity is the floor of the converted quantity
  taken, and the remaining demand goes down by the recomputed stock quantity. When the
  floor is zero the loop returns at once with the rows collected so far, and the candidate
  that was popped is not put back.
\<close>

theorem whole_number_uom_rows:
  "(must_be_whole_number (pli_uom item_doc) \<longrightarrow>
      (\<forall>row \<in> set (fst (get_items_with_location_and_quantity must_be_whole_number item_doc m docstatus)).
         (\<exists>k::int. rr_qty row = of_int k)
         \<and> rr_stock_qty row = rr_qty row * pli_conversion_factor item_doc))
   \<and> (\<forall>r loc rest row r' avail'.
        alloc_step True cf r loc rest = Continue row r' avail' \<longrightarrow>
          rr_qty row = of_int \<lfloor>(if il_qty loc \<ge> r then r else il_qty loc)
                                  / (if cf = 0 then 1 else cf)\<rfloor>
          \<and> rr_stock_qty row = rr_qty row * cf
          \<and> r' = r - rr_stock_qty row)
   \<and> (\<forall>r (loc::item_location) rest acc.
        0 < r \<and> \<lfloor>(if il_qty loc \<ge> r then r else il_qty loc) / (if cf = 0 then 1 else cf)\<rfloor> = 0 \<longrightarrow>
          alloc_loop True cf r (loc # rest) acc = (acc, rest))"
proof (intro conjI impI allI)
  assume wn: "must_be_whole_number (pli_uom item_doc)"
  show "\<forall>row \<in> set (fst (get_items_with_location_and_quantity must_be_whole_number item_doc m docstatus)).
         (\<exists>k::int. rr_qty row = of_int k)
         \<and> rr_stock_qty row = rr_qty row * pli_conversion_factor item_doc"
  proof (cases "m (pli_item_code item_doc)")
    case None
    then show ?thesis by (simp add: get_items_with_location_and_quantity_def)
  next
    case (Some avail)
    have "\<forall>row \<in> set (fst (alloc_loop (must_be_whole_number (pli_uom item_doc))
              (pli_conversion_factor item_doc) (remaining_stock_qty item_doc docstatus) avail [])).
           (\<exists>k::int. rr_qty row = of_int k)
           \<and> rr_stock_qty row = rr_qty row * pli_conversion_factor item_doc"
      by (rule alloc_loop_rows_whole [OF wn]) simp
    with Some show ?thesis
      by (simp add: get_items_with_location_and_quantity_def split: prod.splits)
  qed
next
  fix r loc rest row r' avail'
  assume st: "alloc_step True cf r loc rest = Continue row r' avail'"
  show "rr_qty row = of_int \<lfloor>(if il_qty loc \<ge> r then r else il_qty loc) / (if cf = 0 then 1 else cf)\<rfloor>"
    by (rule alloc_step_whole_row(1) [OF st])
  show "rr_stock_qty row = rr_qty row * cf"
    by (rule alloc_step_whole_row(2) [OF st])
  from st show "r' = r - rr_stock_qty row"
    by (auto simp: alloc_step_Continue)
next
  fix r and loc :: item_location and rest acc
  assume a: "0 < r \<and> \<lfloor>(if il_qty loc \<ge> r then r else il_qty loc) / (if cf = 0 then 1 else cf)\<rfloor> = 0"
  then have "alloc_step True cf r loc rest = Break"
    by (simp add: alloc_step_Break take_from_whole_zero)
  with a show "alloc_loop True cf r (loc # rest) acc = (acc, rest)"
    by (simp add: alloc_loop_break)
qed

theorem whole_number_uom_rows_witness:
  "fst (get_items_with_location_and_quantity (\<lambda>u. True)
          (restock_line\<lparr>pli_stock_qty := 7, pli_conversion_factor := 2\<rparr>)
          [''ITEM-A'' \<mapsto> [untracked_candidate ''Stores'' 5, untracked_candidate ''Yard'' 9]] 0)
     = [\<lparr>rr_qty = 2, rr_stock_qty = 4, rr_warehouse = Some ''Stores'',
          rr_serial_and_batch_bundle = None\<rparr>]
   \<and> alloc_step True 2 7 (untracked_candidate ''Stores'' 5) [untracked_candidate ''Yard'' 9]
     = Continue \<lparr>rr_qty = 2, rr_stock_qty = 4, rr_warehouse = Some ''Stores'',
          rr_serial_and_batch_bundle = None\<rparr> 3
          [untracked_candidate ''Stores'' 1, untracked_candidate ''Yard'' 9]
   \<and> alloc_loop True 2 3 [untracked_candidate ''Stores'' 1, untracked_candidate ''Yard'' 9] []
     = ([], [untracked_candidate ''Yard'' 9])"
proof -
  have step: "alloc_step True 2 7 (untracked_candidate ''Stores'' 5) [untracked_candidate ''Yard'' 9]
     = Continue \<lparr>rr_qty = 2, rr_stock_qty = 4, rr_warehouse = Some ''Stores'',
          rr_serial_and_batch_bundle = None\<rparr> 3
          [untracked_candidate ''Stores'' 1, untracked_candidate ''Yard'' 9]"
    by (simp add: alloc_step_def take_from_def requeue_def untracked_candidate_def Let_def)
  have stop: "alloc_loop True 2 3 [untracked_candidate ''Stores'' 1, untracked_candidate ''Yard'' 9] acc
     = (acc, [untracked_candidate ''Yard'' 9])" for acc
    by (simp add: alloc_loop.simps alloc_step_def take_from_def untracked_candidate_def Let_def)
  have run: "fst (get_items_with_location_and_quantity (\<lambda>u. True)
          (restock_line\<lparr>pli_stock_qty := 7, pli_conversion_factor := 2\<rparr>)
          [''ITEM-A'' \<mapsto> [untracked_candidate ''Stores'' 5, untracked_candidate ''Yard'' 9]] 0)
     = [\<lparr>rr_qty = 2, rr_stock_qty = 4, rr_warehouse = Some ''Stores'',
          rr_serial_and_batch_bundle = None\<rparr>]"
    by (simp add: get_items_with_location_and_quantity_def remaining_stock_qty_def
        restock_line_def alloc_loop.simps [of _ _ 7] step stop)
  from whole_number_uom_rows [of "\<lambda>u. True"
      "restock_line\<lparr>pli_stock_qty := 7, pli_conversion_factor := 2\<rparr>"
      "[''ITEM-A'' \<mapsto> [untracked_candidate ''Stores'' 5, untracked_candidate ''Yard'' 9]]" 0 2]
  show ?thesis using step stop run by simp
qed


lemma alloc_loop_done: "r \<le> 0 \<Longrightarrow> alloc_loop wn cf r avail acc = (acc, avail)"
  by (cases avail) (simp_all add: alloc_loop.simps)

lemma alloc_loop_covered:
  assumes "0 < r" and "r \<le> il_qty loc"
  shows "alloc_loop False cf r (loc # rest) acc
    = (acc @ [\<lparr>rr_qty = r / (if cf = 0 then 1 else cf), rr_stock_qty = r,
               rr_warehouse = il_warehouse loc,
               rr_serial_and_batch_bundle = il_serial_and_batch_bundle loc\<rparr>],
       requeue loc (il_qty loc - r) rest)"
  using assms
  by (simp add: alloc_loop.simps [of _ _ r] alloc_step_def take_from_def alloc_loop_done)


text \<open>
  C8. For a submitted line (docstatus 1) whose stored stock quantity is zero the allocator
  starts from the line's \<^verbatim>\<open>qty\<close>: it behaves like a draft line whose stock
  quantity is that \<^verbatim>\<open>qty\<close>, and when the first candidate holds at least that much
  (and the unit need not be whole) it returns one row over the whole \<^verbatim>\<open>qty\<close>. For
  every other line it starts from the line's stock quantity, whatever the docstatus.
\<close>

theorem restock_uses_qty:
  "(docstatus = 1 \<and> pli_stock_qty item_doc = 0 \<longrightarrow>
      remaining_stock_qty item_doc docstatus = pli_qty item_doc
      \<and> get_items_with_location_and_quantity w item_doc m docstatus
        = get_items_with_location_and_quantity w (item_doc\<lparr>pli_stock_qty := pli_qty item_doc\<rparr>) m 0
      \<and> (0 < pli_qty item_doc \<and> \<not> w (pli_uom item_doc)
           \<and> m (pli_item_code item_doc) = Some (loc # rest) \<and> pli_qty item_doc \<le> il_qty loc \<longrightarrow>
          fst (get_items_with_location_and_quantity w item_doc m docstatus)
            = [\<lparr>rr_qty = pli_qty item_doc
                   / (if pli_conversion_factor item_doc = 0 then 1
                      else pli_conversion_factor item_doc),
                rr_stock_qty = pli_qty item_doc, rr_warehouse = il_warehouse loc,
                rr_serial_and_batch_bundle = il_serial_and_batch_bundle loc\<rparr>]))
   \<and> (\<not> (docstatus = 1 \<and> pli_stock_qty item_doc = 0) \<longrightarrow>
      remaining_stock_qty item_doc docstatus = pli_stock_qty item_doc
      \<and> get_items_with_location_and_quantity w item_doc m docstatus
        = get_items_with_location_and_quantity w item_doc m 0)"
proof -
  have same: "remaining_stock_qty d1 ds1 = remaining_stock_qty d2 ds2 \<Longrightarrow>
      pli_item_code d1 = pli_item_code d2 \<Longrightarrow> pli_uom d1 = pli_uom d2 \<Longrightarrow>
      pli_conversion_factor d1 = pli_conversion_factor d2 \<Longrightarrow>
      get_items_with_location_and_quantity w d1 m ds1
        = get_items_with_location_and_quantity w d2 m ds2" for d1 d2 ds1 ds2
    unfolding get_items_with_location_and_quantity_def by (simp only:)
  have picks: "fst (get_items_with_location_and_quantity w item_doc m docstatus)
            = [\<lparr>rr_qty = pli_qty item_doc
                   / (if pli_conversion_factor item_doc = 0 then 1
                      else pli_conversion_factor item_doc),
                rr_stock_qty = pli_qty item_doc, rr_warehouse = il_warehouse loc,
                rr_serial_and_batch_bundle = il_serial_and_batch_bundle loc\<rparr>]"
    if a: "0 < pli_qty item_doc \<and> \<not> w (pli_uom item_doc)
           \<and> m (pli_item_code item_doc) = Some (loc # rest) \<and> pli_qty item_doc \<le> il_qty loc"
      and b: "docstatus = 1 \<and> pli_stock_qty item_doc = 0"
  proof -
    from b have r: "remaining_stock_qty item_doc docstatus = pli_qty item_doc"
      by (simp add: remaining_stock_qty_def)
    from a show ?thesis
      by (simp add: get_items_with_location_and_quantity_def r alloc_loop_covered)
  qed
  have final: "get_items_with_location_and_quantity w item_doc m docstatus
        = get_items_with_location_and_quantity w (item_doc\<lparr>pli_stock_qty := pli_qty item_doc\<rparr>) m 0"
    if "docstatus = 1 \<and> pli_stock_qty item_doc = 0"
    by (rule same) (simp_all add: remaining_stock_qty_def that)
  have other: "get_items_with_location_and_quantity w item_doc m docstatus
        = get_items_with_location_and_quantity w item_doc m 0"
    if "\<not> (docstatus = 1 \<and> pli_stock_qty item_doc = 0)"
    by (rule same) (use that in \<open>auto simp: remaining_stock_qty_def\<close>)
  show ?thesis
    using picks final other by (simp add: remaining_stock_qty_def)
qed

theorem restock_uses_qty_witness:
  "remaining_stock_qty restock_line 1 = 5
   \<and> get_items_with_location_and_quantity (\<lambda>u. False) restock_line
        [''ITEM-A'' \<mapsto> [untracked_candidate ''Stores'' 8]] 1
      = ([\<lparr>rr_qty = 5, rr_stock_qty = 5, rr_warehouse = Some ''Stores'',
            rr_serial_and_batch_bundle = None\<rparr>],
         [''ITEM-A'' \<mapsto> [untracked_candidate ''Stores'' 3]])
   \<and> remaining_stock_qty restock_line 0 = 0
   \<and> get_items_with_location_and_quantity (\<lambda>u. False) restock_line
        [''ITEM-A'' \<mapsto> [untracked_candidate ''Stores'' 8]] 0
      = ([], [''ITEM-A'' \<mapsto> [untracked_candidate ''Stores'' 8]])"
  using restock_uses_qty [of 1 restock_line "\<lambda>u. False" "[''ITEM-A'' \<mapsto> [untracked_candidate ''Stores'' 8]]"]
    restock_uses_qty [of 0 restock_line "\<lambda>u. False" "[''ITEM-A'' \<mapsto> [untracked_candidate ''Stores'' 8]]"]
  by (simp add: get_items_with_location_and_quantity_def remaining_stock_qty_def restock_line_def
      alloc_loop.simps alloc_step_def take_from_def requeue_def untracked_candidate_def)


section \<open>Properties of the merge and of \<^verbatim>\<open>set_item_locations\<close>\<close>

subsection \<open>Keys of the merged rows\<close>

lemma add_quantities_keys: "map fst (add_quantities key loc upd) = map fst upd"
  by (induction upd) auto

lemma add_quantities_keyed_rows:
  "list_all (\<lambda>(k, l). location_key_of l = k) upd \<Longrightarrow>
   list_all (\<lambda>(k, l). location_key_of l = k) (add_quantities key loc upd)"
  by (induction upd) (auto simp: location_key_of_def)

lemma merge_location_keyed: "keyed upd \<Longrightarrow> keyed (merge_location loc upd)"
  by (auto simp: keyed_def merge_location_def Let_def add_quantities_keys add_quantities_keyed_rows)

lemma fold_merge_location_keyed: "keyed upd \<Longrightarrow> keyed (fold merge_location locs upd)"
  by (induction locs arbitrary: upd) (simp_all add: merge_location_keyed)

lemma keyed_Nil: "keyed []"
  by (simp add: keyed_def)

lemma location_key_of_clamp [simp]: "location_key_of (clamp_picked_qty l) = location_key_of l"
  by (simp add: clamp_picked_qty_def location_key_of_def)

lemma clamp_picked_qty_idem [simp]: "clamp_picked_qty (clamp_picked_qty l) = clamp_picked_qty l"
  by (simp add: clamp_picked_qty_def)

lemma clamp_picked_qty_le: "pli_picked_qty (clamp_picked_qty l) \<le> pli_stock_qty (clamp_picked_qty l)"
  by (simp add: clamp_picked_qty_def)

lemma fold_merge_location_fresh:
  assumes "distinct (map location_key_of xs)"
    and "location_key_of ` set xs \<inter> fst ` set upd = {}"
  shows "fold merge_location xs upd = upd @ map (\<lambda>l. (location_key_of l, l)) xs"
  using assms
proof (induction xs arbitrary: upd)
  case Nil
  then show ?case by simp
next
  case (Cons x xs)
  from Cons.prems have fresh: "location_key_of x \<notin> fst ` set upd" by auto
  then have step: "merge_location x upd = upd @ [(location_key_of x, x)]"
    by (simp add: merge_location_def)
  from Cons.prems have "distinct (map location_key_of xs)"
    and "location_key_of ` set xs \<inter> fst ` set (upd @ [(location_key_of x, x)]) = {}"
    by auto
  from Cons.IH [OF this] step show ?case by simp
qed

lemma merge_step_keys_distinct: "distinct (map location_key_of (merge_step locs))"
proof -
  have k: "keyed (fold merge_location locs [])"
    by (rule fold_merge_location_keyed [OF keyed_Nil])
  then have "map location_key_of (merge_step locs) = map fst (fold merge_location locs [])"
    by (auto simp: merge_step_def keyed_def list_all_iff)
  with k show ?thesis by (simp add: keyed_def)
qed

lemma merge_step_clamped: "\<forall>l \<in> set (merge_step locs). pli_picked_qty l \<le> pli_stock_qty l"
  by (auto simp: merge_step_def clamp_picked_qty_le)

lemma merge_step_distinct_keys:
  assumes "distinct (map location_key_of xs)"
  shows "merge_step xs = map clamp_picked_qty xs"
  using fold_merge_location_fresh [OF assms, of "[]"] by (simp add: merge_step_def comp_def)

lemma merge_step_idem: "merge_step (merge_step locations) = merge_step locations"
proof -
  have "merge_step (merge_step locations) = map clamp_picked_qty (merge_step locations)"
    by (rule merge_step_distinct_keys [OF merge_step_keys_distinct])
  also have "\<dots> = merge_step locations"
    by (simp add: merge_step_def)
  finally show ?thesis .
qed

subsection \<open>The loop and the merge\<close>

lemma allocate_items_merge:
  "snd (allocate_items db ds icm items m upd)
     = fold merge_location (allocated_from db ds icm items m) upd"
  by (induction items arbitrary: m upd) (simp_all add: Let_def split: prod.splits)

lemma updated_locations_merge:
  "map (clamp_picked_qty \<circ> snd) (updated_locations db ds st)
     = merge_step (allocated_locations db ds st)"
  by (simp add: updated_locations_def allocated_locations_def merge_step_def allocate_items_merge)

lemma set_item_locations_Inr:
  assumes "set_item_locations db doc = Inr (doc', msgs)"
  shows "\<exists>st. validate_for_qty doc = Inr ()
    \<and> aggregate_item_qty db (pl_locations doc) = Inr st
    \<and> (if merge_step (allocated_locations db (pl_docstatus doc) st) = [] \<and> pl_docstatus doc = 1
       then doc' = doc\<lparr>pl_locations := map zero_quantities (agg_rows st)\<rparr> \<and> msgs = [OutOfStock]
       else doc' = doc\<lparr>pl_locations := merge_step (allocated_locations db (pl_docstatus doc) st)\<rparr>
               \<and> msgs = [])"
  using assms
  by (auto simp: set_item_locations_def Let_def updated_locations_merge
      split: sum.splits if_splits)

subsection \<open>Rows after the aggregation\<close>

lemma up_to_quantities_refl: "up_to_quantities a a"
  by (simp add: up_to_quantities_def)

lemma up_to_quantities_trans:
  "up_to_quantities a b \<Longrightarrow> up_to_quantities b c \<Longrightarrow> up_to_quantities a c"
  by (cases a, cases b, cases c) (simp add: up_to_quantities_def)

lemma up_to_quantities_key: "up_to_quantities a b \<Longrightarrow> location_key_of b = location_key_of a"
  by (cases a, cases b) (auto simp: up_to_quantities_def location_key_of_def)

lemma up_to_quantities_add:
  "up_to_quantities a (a\<lparr>pli_qty := q, pli_stock_qty := s\<rparr>)"
  by (simp add: up_to_quantities_def)

lemma list_all2_up_to_quantities_refl: "list_all2 up_to_quantities xs xs"
  by (simp add: list_all2_refl up_to_quantities_refl)

lemma list_all2_up_to_quantities_update:
  assumes "list_all2 up_to_quantities xs ys"
  shows "list_all2 up_to_quantities xs (ys[j := (ys ! j)\<lparr>pli_qty := q, pli_stock_qty := s\<rparr>])"
proof (cases "j < length ys")
  case False
  then have "ys[j := (ys ! j)\<lparr>pli_qty := q, pli_stock_qty := s\<rparr>] = ys"
    by (intro list_update_beyond) simp
  with assms show ?thesis by (simp only:)
next
  case True
  with assms have "up_to_quantities (xs ! j) (ys ! j)"
    by (simp add: list_all2_conv_all_nth)
  then have "up_to_quantities (xs ! j) ((ys ! j)\<lparr>pli_qty := q, pli_stock_qty := s\<rparr>)"
    using up_to_quantities_add up_to_quantities_trans by blast
  with assms True show ?thesis
    by (simp add: list_all2_conv_all_nth nth_list_update)
qed

lemma aggregate_row_rows:
  assumes "list_all2 up_to_quantities xs (agg_rows st)"
  shows "list_all2 up_to_quantities xs (agg_rows (aggregate_row db i item st))"
  using assms
  by (auto simp: aggregate_row_def Let_def split: option.splits
      intro: list_all2_up_to_quantities_update)

lemma aggregate_from_rows:
  assumes "aggregate_from db i items st = Inr st'"
    and "list_all2 up_to_quantities xs (agg_rows st)"
  shows "list_all2 up_to_quantities xs (agg_rows st')"
  using assms
proof (induction items arbitrary: i st)
  case Nil
  then show ?case by simp
next
  case (Cons item rest)
  from Cons.prems(1) have code: "pli_item_code item \<noteq> []" by (auto split: if_splits)
  show ?case
  proof (cases "\<not> db_is_stock_item db (pli_item_code item)
              \<and> \<not> db_product_bundle_exists db (pli_item_code item)")
    case True
    with code Cons.prems have "aggregate_from db (Suc i) rest st = Inr st'" by simp
    from Cons.IH [OF this Cons.prems(2)] show ?thesis .
  next
    case False
    with code Cons.prems(1)
    have run: "aggregate_from db (Suc i) rest (aggregate_row db i item st) = Inr st'" by auto
    from Cons.IH [OF run aggregate_row_rows [OF Cons.prems(2)]] show ?thesis .
  qed
qed

lemma aggregate_item_qty_rows:
  assumes "aggregate_item_qty db locations = Inr st"
  shows "list_all2 up_to_quantities locations (agg_rows st)"
  using assms aggregate_from_rows [of db 0 locations _ st locations]
  by (simp add: aggregate_item_qty_def list_all2_up_to_quantities_refl)

lemma aggregate_item_qty_keys:
  assumes "aggregate_item_qty db locations = Inr st"
  shows "map location_key_of (agg_rows st) = map location_key_of locations"
proof -
  from aggregate_item_qty_rows [OF assms]
  have "list_all2 (\<lambda>a b. location_key_of b = location_key_of a) locations (agg_rows st)"
    by (rule list_all2_mono) (rule up_to_quantities_key)
  then show ?thesis
    by (simp add: list_all2_conv_all_nth list_eq_iff_nth_eq)
qed

lemma location_key_of_zero [simp]: "location_key_of (zero_quantities l) = location_key_of l"
  by (simp add: zero_quantities_def location_key_of_def)

lemma clamp_zero_quantities [simp]: "clamp_picked_qty (zero_quantities l) = zero_quantities l"
  by (simp add: clamp_picked_qty_def zero_quantities_def)

lemma merge_step_Nil_iff: "merge_step locs = [] \<longleftrightarrow> locs = []"
proof
  assume "merge_step locs = []"
  then have e: "fold merge_location locs [] = []" by (simp add: merge_step_def)
  show "locs = []"
  proof (rule ccontr)
    assume "locs \<noteq> []"
    then obtain x xs where "locs = x # xs" by (cases locs) auto
    moreover have "fold merge_location ys upd \<noteq> []" if "upd \<noteq> []" for ys upd
      using that
    proof (induction ys arbitrary: upd)
      case Nil then show ?case by simp
    next
      case (Cons y ys)
      have "merge_location y upd \<noteq> []"
        using Cons.prems add_quantities_keys [of "location_key_of y" y upd]
        by (auto simp: merge_location_def Let_def)
      then show ?case using Cons.IH by simp
    qed
    ultimately show False using e by (simp add: merge_location_def)
  qed
qed (simp add: merge_step_def)

subsection \<open>Quantities of the merged rows\<close>

lemma summed_Nil [simp]: "summed x [] = x"
  by (simp add: summed_def)

lemma summed_summed: "summed (summed l [y]) g = summed l (y # g)"
  by (simp add: summed_def add.assoc)

lemma map_of_add_quantities:
  "map_of (add_quantities key x upd) k =
     (if k = key then map_option (\<lambda>l. summed l [x]) (map_of upd key) else map_of upd k)"
  by (induction upd) (auto simp: summed_def)

lemma map_of_merge_location:
  "map_of (merge_location x upd) k =
     (if k = location_key_of x
      then Some (case map_of upd k of None \<Rightarrow> x | Some l \<Rightarrow> summed l [x])
      else map_of upd k)"
proof (cases "location_key_of x \<in> fst ` set upd")
  case True
  then obtain l where "map_of upd (location_key_of x) = Some l"
    by (metis map_of_eq_None_iff not_Some_eq)
  with True show ?thesis
    by (simp add: merge_location_def map_of_add_quantities)
next
  case False
  then have "map_of upd (location_key_of x) = None"
    by (simp add: map_of_eq_None_iff)
  with False show ?thesis
    by (auto simp: merge_location_def map_add_def split: option.splits)
qed

lemma map_of_fold_merge_location:
  "map_of (fold merge_location locs upd) k =
     (case map_of upd k of
        Some l \<Rightarrow> Some (summed l (group_of k locs))
      | None \<Rightarrow> (case group_of k locs of [] \<Rightarrow> None | x # g \<Rightarrow> Some (summed x g)))"
proof (induction locs arbitrary: upd)
  case Nil
  then show ?case by (simp add: group_of_def split: option.splits)
next
  case (Cons y ys)
  show ?case
  proof (cases "k = location_key_of y")
    case True
    then have g: "group_of k (y # ys) = y # group_of k ys" by (simp add: group_of_def)
    have m: "map_of (merge_location y upd) k
               = Some (case map_of upd k of None \<Rightarrow> y | Some l \<Rightarrow> summed l [y])"
      using True by (simp add: map_of_merge_location)
    have "map_of (fold merge_location (y # ys) upd) k
            = Some (summed (case map_of upd k of None \<Rightarrow> y | Some l \<Rightarrow> summed l [y])
                      (group_of k ys))"
      by (simp add: Cons.IH m)
    then show ?thesis
      by (cases "map_of upd k") (simp_all add: g summed_summed)
  next
    case False
    then have g: "group_of k (y # ys) = group_of k ys" by (simp add: group_of_def)
    show ?thesis
      unfolding g using False by (simp add: Cons.IH map_of_merge_location)
  qed
qed

lemma merge_step_row:
  assumes "l' \<in> set (merge_step locs)"
  shows "\<exists>x g. group_of (location_key_of l') locs = x # g \<and> l' = clamp_picked_qty (summed x g)"
proof -
  let ?M = "fold merge_location locs []"
  have k: "keyed ?M" by (rule fold_merge_location_keyed [OF keyed_Nil])
  from assms obtain key l where in_M: "(key, l) \<in> set ?M" and l': "l' = clamp_picked_qty l"
    by (auto simp: merge_step_def)
  from k in_M have key: "location_key_of l = key"
    by (auto simp: keyed_def list_all_iff)
  from k in_M have "map_of ?M key = Some l"
    by (simp add: keyed_def)
  then have "(case group_of key locs of [] \<Rightarrow> None | x # g \<Rightarrow> Some (summed x g)) = Some l"
    by (simp add: map_of_fold_merge_location)
  then obtain x g where "group_of key locs = x # g" and "l = summed x g"
    by (auto split: list.splits)
  with key l' show ?thesis by auto
qed

lemma clamp_summed:
  "pli_qty (clamp_picked_qty (summed x g)) = sum_list (map pli_qty (x # g))"
  "pli_stock_qty (clamp_picked_qty (summed x g)) = sum_list (map pli_stock_qty (x # g))"
  "pli_picked_qty (clamp_picked_qty (summed x g))
     = min (pli_picked_qty x) (sum_list (map pli_stock_qty (x # g)))"
  by (simp_all add: clamp_picked_qty_def summed_def)


subsection \<open>Two runs on example data\<close>

lemma run_stores:
  "set_item_locations stores_db (delivery 0 [line_a ''Bay-1'' 3 8, line_a ''Bay-2'' 4 1])
     = Inr (delivery 0 [line_a ''Stores'' 7 7], [])"
  by (simp add: set_item_locations_def validate_for_qty_def aggregate_item_qty_def
      aggregate_row_def item_key_of_def py_or_def flt_def rounded_def round_half_even_def
      updated_locations_def item_map_values_def get_items_with_location_and_quantity_def
      remaining_stock_qty_def alloc_loop.simps alloc_step_def take_from_def requeue_def
      untracked_candidate_def as_location_def merge_location_def location_key_of_def
      clamp_picked_qty_def stores_db_def line_a_def delivery_def Let_def)

lemma run_empty:
  "set_item_locations empty_db (delivery 1 [line_a ''Bay-1'' 3 8, line_a ''Bay-1'' 3 8])
     = Inr (delivery 1 [(line_a ''Bay-1'' 6 0)\<lparr>pli_stock_qty := 0\<rparr>,
                        (line_a ''Bay-1'' 3 0)\<lparr>pli_stock_qty := 0\<rparr>], [OutOfStock])"
  by (simp add: set_item_locations_def validate_for_qty_def aggregate_item_qty_def
      aggregate_row_def item_key_of_def py_or_def flt_def rounded_def round_half_even_def
      updated_locations_def item_map_values_def get_items_with_location_and_quantity_def
      remaining_stock_qty_def alloc_loop.simps zero_quantities_def
      empty_db_def stores_db_def line_a_def delivery_def Let_def)

lemma zero_quantities_up_to:
  assumes "up_to_quantities a b"
  shows "(zero_quantities b)\<lparr>pli_qty := pli_qty a\<rparr> = zero_quantities a"
  using assms by (cases a, cases b) (auto simp: up_to_quantities_def zero_quantities_def)

text \<open>
  C6. After \<^verbatim>\<open>set_item_locations\<close> every row of the location table has a picked
  quantity that is at most its stock quantity. When the rows come out of the merge, no two
  of them share a key, and each carries the sums of \<^verbatim>\<open>qty\<close> and \<^verbatim>\<open>stock_qty\<close> over
  the allocated rows of its key, with the picked quantity carried from the first of them
  and lowered to the merged stock quantity where it was larger.
\<close>

theorem picked_qty_within_stock_qty:
  assumes "set_item_locations db doc = Inr (doc', msgs)"
  shows "(\<forall>l \<in> set (pl_locations doc'). pli_picked_qty l \<le> pli_stock_qty l)
       \<and> (msgs = [] \<longrightarrow>
            distinct (map location_key_of (pl_locations doc'))
            \<and> (\<exists>st. aggregate_item_qty db (pl_locations doc) = Inr st
                 \<and> (\<forall>l \<in> set (pl_locations doc').
                      \<exists>x g. group_of (location_key_of l)
                                (allocated_locations db (pl_docstatus doc) st) = x # g
                        \<and> pli_qty l = sum_list (map pli_qty (x # g))
                        \<and> pli_stock_qty l = sum_list (map pli_stock_qty (x # g))
                        \<and> pli_picked_qty l = min (pli_picked_qty x) (pli_stock_qty l))))"
proof -
  from set_item_locations_Inr [OF assms]
  obtain st where agg: "aggregate_item_qty db (pl_locations doc) = Inr st"
    and br: "if merge_step (allocated_locations db (pl_docstatus doc) st) = [] \<and> pl_docstatus doc = 1
       then doc' = doc\<lparr>pl_locations := map zero_quantities (agg_rows st)\<rparr> \<and> msgs = [OutOfStock]
       else doc' = doc\<lparr>pl_locations := merge_step (allocated_locations db (pl_docstatus doc) st)\<rparr>
               \<and> msgs = []"
    by blast
  let ?A = "allocated_locations db (pl_docstatus doc) st"
  show ?thesis
  proof (cases "merge_step ?A = [] \<and> pl_docstatus doc = 1")
    case True
    with br show ?thesis by (auto simp: zero_quantities_def)
  next
    case False
    with br have locs: "pl_locations doc' = merge_step ?A" by auto
    have "\<exists>x g. group_of (location_key_of l) ?A = x # g
                        \<and> pli_qty l = sum_list (map pli_qty (x # g))
                        \<and> pli_stock_qty l = sum_list (map pli_stock_qty (x # g))
                        \<and> pli_picked_qty l = min (pli_picked_qty x) (pli_stock_qty l)"
      if "l \<in> set (merge_step ?A)" for l
    proof -
      from merge_step_row [OF that] obtain x g
        where g: "group_of (location_key_of l) ?A = x # g" and l: "l = clamp_picked_qty (summed x g)"
        by blast
      show ?thesis
        apply (rule exI [of _ x], rule exI [of _ g])
        using g by (simp only: l clamp_summed)
    qed
    with agg locs show ?thesis
      using merge_step_clamped [of ?A] merge_step_keys_distinct [of ?A] by auto
  qed
qed

theorem picked_qty_within_stock_qty_witness:
  "set_item_locations stores_db (delivery 0 [line_a ''Bay-1'' 3 8, line_a ''Bay-2'' 4 1])
     = Inr (delivery 0 [line_a ''Stores'' 7 7], [])
   \<and> pli_picked_qty (line_a ''Stores'' 7 7) \<le> pli_stock_qty (line_a ''Stores'' 7 7)"
  using picked_qty_within_stock_qty [OF run_stores] run_stores
  by (simp add: delivery_def)

text \<open>
  C7. When the document is submitted (docstatus 1) and the allocation yields no row, the
  run does not end with an empty table: it returns the previous rows, in their order,
  with stock quantity and picked quantity set to zero, and shows the out-of-stock message.
  The rows are otherwise the previous ones, but for the \<^verbatim>\<open>qty\<close> of a row that the
  aggregation has added other rows to.
\<close>

theorem out_of_stock_fallback:
  assumes final: "pl_docstatus doc = 1"
    and valid: "validate_for_qty doc = Inr ()"
    and agg: "aggregate_item_qty db (pl_locations doc) = Inr st"
    and none: "allocated_locations db 1 st = []"
  shows "\<exists>locations.
           set_item_locations db doc = Inr (doc\<lparr>pl_locations := locations\<rparr>, [OutOfStock])
           \<and> length locations = length (pl_locations doc)
           \<and> (pl_locations doc \<noteq> [] \<longrightarrow> locations \<noteq> [])
           \<and> (\<forall>i < length locations.
                 pli_stock_qty (locations ! i) = 0 \<and> pli_picked_qty (locations ! i) = 0
                 \<and> (locations ! i)\<lparr>pli_qty := pli_qty (pl_locations doc ! i)\<rparr>
                     = zero_quantities (pl_locations doc ! i))"
proof -
  let ?locs = "map zero_quantities (agg_rows st)"
  from none have "merge_step (allocated_locations db (pl_docstatus doc) st) = []"
    by (simp add: final merge_step_def)
  then have "map (clamp_picked_qty \<circ> snd) (updated_locations db (pl_docstatus doc) st) = []"
    by (simp add: updated_locations_merge)
  with final valid agg
  have run: "set_item_locations db doc = Inr (doc\<lparr>pl_locations := ?locs\<rparr>, [OutOfStock])"
    by (simp add: set_item_locations_def)
  have rows: "list_all2 up_to_quantities (pl_locations doc) (agg_rows st)"
    by (rule aggregate_item_qty_rows [OF agg])
  then have len: "length ?locs = length (pl_locations doc)"
    by (simp add: list_all2_lengthD)
  have each: "pli_stock_qty (?locs ! i) = 0 \<and> pli_picked_qty (?locs ! i) = 0
                 \<and> (?locs ! i)\<lparr>pli_qty := pli_qty (pl_locations doc ! i)\<rparr>
                     = zero_quantities (pl_locations doc ! i)"
    if "i < length ?locs" for i
  proof -
    from that rows have "up_to_quantities (pl_locations doc ! i) (agg_rows st ! i)"
      by (simp add: list_all2_conv_all_nth)
    from zero_quantities_up_to [OF this] that show ?thesis
      by (simp add: zero_quantities_def)
  qed
  from run len each show ?thesis
    by (intro exI [of _ ?locs]) auto
qed

theorem out_of_stock_fallback_witness:
  "set_item_locations empty_db (delivery 1 [line_a ''Bay-1'' 3 8, line_a ''Bay-2'' 4 1])
     = Inr (delivery 1 [(line_a ''Bay-1'' 3 0)\<lparr>pli_stock_qty := 0\<rparr>,
                        (line_a ''Bay-2'' 4 0)\<lparr>pli_stock_qty := 0\<rparr>], [OutOfStock])"
proof -
  let ?doc = "delivery 1 [line_a ''Bay-1'' 3 8, line_a ''Bay-2'' 4 1]"
  let ?st = "\<lparr>agg_rows = [line_a ''Bay-1'' 3 8, line_a ''Bay-2'' 4 1],
      agg_item_map = [(item_key_of (line_a ''Bay-1'' 3 8), 0), (item_key_of (line_a ''Bay-2'' 4 1), 1)],
      agg_item_count_map = [''ITEM-A'' \<mapsto> 7]\<rparr>"
  have final: "pl_docstatus ?doc = 1" by (simp add: delivery_def)
  have valid: "validate_for_qty ?doc = Inr ()" by (simp add: validate_for_qty_def delivery_def)
  have agg: "aggregate_item_qty empty_db (pl_locations ?doc) = Inr ?st"
    by (simp add: aggregate_item_qty_def aggregate_row_def item_key_of_def py_or_def flt_def
        rounded_def round_half_even_def empty_db_def stores_db_def line_a_def delivery_def Let_def)
  have none: "allocated_locations empty_db 1 ?st = []"
    by (simp add: allocated_locations_def item_map_values_def
        get_items_with_location_and_quantity_def alloc_loop.simps empty_db_def stores_db_def
        line_a_def)
  from out_of_stock_fallback [OF final valid agg none]
  show ?thesis
    by (simp add: set_item_locations_def validate_for_qty_def aggregate_item_qty_def
      aggregate_row_def item_key_of_def py_or_def flt_def rounded_def round_half_even_def
      updated_locations_def item_map_values_def get_items_with_location_and_quantity_def
      remaining_stock_qty_def alloc_loop.simps zero_quantities_def
      empty_db_def stores_db_def line_a_def delivery_def Let_def)
qed


text \<open>
  C9. Feeding the rows that \<^verbatim>\<open>set_item_locations\<close> leaves in the table through the
  merge again gives the same rows, provided they came out of the merge (no out-of-stock
  message), or the previous rows, which the out-of-stock branch puts back, had pairwise
  different merge keys. The merge applied to its own output is always the identity.
\<close>

theorem remerge_is_identity:
  assumes run: "set_item_locations db doc = Inr (doc', msgs)"
    and scope: "msgs = [] \<or> distinct (map location_key_of (pl_locations doc))"
  shows "merge_step (pl_locations doc') = pl_locations doc'
       \<and> merge_step (merge_step locations) = merge_step locations"
proof
  from set_item_locations_Inr [OF run]
  obtain st where agg: "aggregate_item_qty db (pl_locations doc) = Inr st"
    and br: "if merge_step (allocated_locations db (pl_docstatus doc) st) = [] \<and> pl_docstatus doc = 1
       then doc' = doc\<lparr>pl_locations := map zero_quantities (agg_rows st)\<rparr> \<and> msgs = [OutOfStock]
       else doc' = doc\<lparr>pl_locations := merge_step (allocated_locations db (pl_docstatus doc) st)\<rparr>
               \<and> msgs = []"
    by blast
  show "merge_step (pl_locations doc') = pl_locations doc'"
  proof (cases "merge_step (allocated_locations db (pl_docstatus doc) st) = [] \<and> pl_docstatus doc = 1")
    case True
    with br have locs: "pl_locations doc' = map zero_quantities (agg_rows st)"
      and "msgs \<noteq> []" by auto
    with scope have "distinct (map location_key_of (pl_locations doc))" by simp
    then have "distinct (map location_key_of (agg_rows st))"
      by (simp add: aggregate_item_qty_keys [OF agg])
    then have "distinct (map location_key_of (map zero_quantities (agg_rows st)))"
      by (simp add: comp_def)
    from merge_step_distinct_keys [OF this] show ?thesis
      by (simp add: locs comp_def)
  next
    case False
    with br have "pl_locations doc' = merge_step (allocated_locations db (pl_docstatus doc) st)"
      by auto
    then show ?thesis by (simp add: merge_step_idem)
  qed
  show "merge_step (merge_step locations) = merge_step locations"
    by (rule merge_step_idem)
qed

theorem remerge_is_identity_witness:
  "set_item_locations stores_db (delivery 0 [line_a ''Bay-1'' 3 8, line_a ''Bay-2'' 4 1])
     = Inr (delivery 0 [line_a ''Stores'' 7 7], [])
   \<and> merge_step [line_a ''Stores'' 7 7] = [line_a ''Stores'' 7 7]"
  using remerge_is_identity [OF run_stores, of "[]"] run_stores
  by (simp add: delivery_def)

text \<open>
  Without that proviso the statement fails: a submitted pick list with two rows of the same
  key and no stock keeps both rows, and the merge would join them.
\<close>

theorem remerge_after_fallback_counterexample:
  "set_item_locations empty_db (delivery 1 [line_a ''Bay-1'' 3 8, line_a ''Bay-1'' 3 8])
     = Inr (delivery 1 [(line_a ''Bay-1'' 6 0)\<lparr>pli_stock_qty := 0\<rparr>,
                        (line_a ''Bay-1'' 3 0)\<lparr>pli_stock_qty := 0\<rparr>], [OutOfStock])
   \<and> merge_step [(line_a ''Bay-1'' 6 0)\<lparr>pli_stock_qty := 0\<rparr>,
                  (line_a ''Bay-1'' 3 0)\<lparr>pli_stock_qty := 0\<rparr>]
     = [(line_a ''Bay-1'' 9 0)\<lparr>pli_stock_qty := 0\<rparr>]
   \<and> merge_step [(line_a ''Bay-1'' 6 0)\<lparr>pli_stock_qty := 0\<rparr>,
                  (line_a ''Bay-1'' 3 0)\<lparr>pli_stock_qty := 0\<rparr>]
     \<noteq> [(line_a ''Bay-1'' 6 0)\<lparr>pli_stock_qty := 0\<rparr>,
         (line_a ''Bay-1'' 3 0)\<lparr>pli_stock_qty := 0\<rparr>]"
proof -
  have merged: "merge_step [(line_a ''Bay-1'' 6 0)\<lparr>pli_stock_qty := 0\<rparr>,
                  (line_a ''Bay-1'' 3 0)\<lparr>pli_stock_qty := 0\<rparr>]
     = [(line_a ''Bay-1'' 9 0)\<lparr>pli_stock_qty := 0\<rparr>]"
    by (simp add: merge_step_def merge_location_def location_key_of_def py_or_def
        clamp_picked_qty_def line_a_def)
  show ?thesis
    by (intro conjI) (rule run_empty, rule merged, simp add: merged)
qed

section \<open>Properties of the bundle count\<close>

lemma fold_min_Min: "fold min ys (x::rat) = Min (set (x # ys))"
proof (induction ys arbitrary: x)
  case Nil
  then show ?case by simp
next
  case (Cons y ys)
  have "fold min (y # ys) x = Min (set (min y x # ys))" by (simp add: Cons.IH)
  also have "\<dots> = Min (set (x # y # ys))"
    by (cases "set ys = {}") (simp_all add: min.commute min.left_commute min.assoc)
  finally show ?case .
qed

lemma py_min_Min: "xs \<noteq> [] \<Longrightarrow> py_min xs = Inr (Min (set xs))"
  by (cases xs) (simp_all add: py_min_def fold_min_Min)

lemma compute_picked_qty_for_bundle_least:
  assumes "\<exists>item \<in> set locations. pli_product_bundle_item item = Some bundle_row"
  shows "compute_picked_qty_for_bundle precision locations bundle_row bundle_items
           = Inr (least_quotient_count precision locations bundle_row bundle_items)"
proof -
  let ?xs = "possible_bundles locations bundle_row bundle_items"
  from assms have "filter (\<lambda>item. pli_product_bundle_item item = Some bundle_row) locations \<noteq> []"
    by (auto simp: filter_empty_conv)
  then have ne: "?xs \<noteq> []" by (simp add: possible_bundles_def)
  have "set ?xs = (\<lambda>item. case bundle_items (pli_item_code item) of
                       None \<Rightarrow> 0
                     | Some required \<Rightarrow> if required = 0 then 0 else pli_picked_qty item / required)
             ` {item \<in> set locations. pli_product_bundle_item item = Some bundle_row}"
    by (simp add: possible_bundles_def)
  with py_min_Min [OF ne] show ?thesis
    by (simp add: compute_picked_qty_for_bundle_def least_quotient_count_def flt_def)
qed

lemma dict_set_keys:
  "map fst (dict_set k v d) = (if k \<in> set (map fst d) then map fst d else map fst d @ [k])"
  by (induction d) force+

lemma dict_set_distinct: "distinct (map fst d) \<Longrightarrow> distinct (map fst (dict_set k v d))"
  by (simp add: dict_set_keys)

lemma get_product_bundles_from_keys:
  "set (map fst (get_product_bundles_from f locs pb))
     \<subseteq> set (map fst pb) \<union> {k. \<exists>item \<in> set locs. pli_product_bundle_item item = Some k}"
proof (induction locs arbitrary: pb)
  case Nil
  then show ?case by simp
next
  case (Cons item locs)
  show ?case
  proof (cases "pli_product_bundle_item item")
    case None
    with Cons.IH [of pb] show ?thesis by auto
  next
    case (Some so_row)
    show ?thesis
    proof (cases "so_row = []")
      case True
      with Some Cons.IH [of pb] show ?thesis by auto
    next
      case False
      have "set (map fst (dict_set so_row (f so_row) pb)) \<subseteq> insert so_row (set (map fst pb))"
        by (auto simp: dict_set_keys)
      with Some False Cons.IH [of "dict_set so_row (f so_row) pb"] show ?thesis by auto
    qed
  qed
qed

lemma get_product_bundles_from_distinct:
  "distinct (map fst pb) \<Longrightarrow> distinct (map fst (get_product_bundles_from f locs pb))"
  by (induction locs arbitrary: pb) (auto simp: dict_set_distinct split: option.splits)

lemma dict_set_values:
  "list_all (\<lambda>(k', v'). v' = f k') d \<Longrightarrow> list_all (\<lambda>(k', v'). v' = f k') (dict_set k (f k) d)"
  by (induction d) auto

lemma get_product_bundles_from_values:
  "list_all (\<lambda>(k, v). v = f k) pb \<Longrightarrow>
   list_all (\<lambda>(k, v). v = f k) (get_product_bundles_from f locs pb)"
  by (induction locs arbitrary: pb) (auto simp: dict_set_values split: option.splits)

lemma update_bundle_rows_result:
  assumes "distinct (map fst pb)"
    and "\<forall>k \<in> set (map fst pb). \<exists>item \<in> set locations. pli_product_bundle_item item = Some k"
  shows "\<exists>c'. update_bundle_rows prec bqm ds locations pb c = Inr c'
          \<and> (\<forall>k. c' k = (case map_of pb k of
                            None \<Rightarrow> c k
                          | Some code \<Rightarrow>
                              c k + of_int (least_quotient_count prec locations k (bqm code))
                                    * (if ds = 1 then 1 else - 1)))"
  using assms
proof (induction pb arbitrary: c)
  case Nil
  then show ?case by simp
next
  case (Cons p pb)
  obtain k0 code0 where p: "p = (k0, code0)" by (cases p)
  let ?n = "least_quotient_count prec locations k0 (bqm code0)"
  let ?c1 = "c(k0 := c k0 + of_int ?n * (if ds = 1 then 1 else - 1))"
  from Cons.prems(2) have "\<exists>item \<in> set locations. pli_product_bundle_item item = Some k0"
    by (simp add: p)
  then have comp: "compute_picked_qty_for_bundle prec locations k0 (bqm code0) = Inr ?n"
    by (rule compute_picked_qty_for_bundle_least)
  from Cons.prems have d: "distinct (map fst pb)" and fresh: "k0 \<notin> set (map fst pb)"
    and ex: "\<forall>k \<in> set (map fst pb). \<exists>item \<in> set locations. pli_product_bundle_item item = Some k"
    by (auto simp: p)
  from Cons.IH [OF d ex, of ?c1] obtain c' where
    run: "update_bundle_rows prec bqm ds locations pb ?c1 = Inr c'"
    and val: "\<forall>k. c' k = (case map_of pb k of
                            None \<Rightarrow> ?c1 k
                          | Some code \<Rightarrow>
                              ?c1 k + of_int (least_quotient_count prec locations k (bqm code))
                                    * (if ds = 1 then 1 else - 1))"
    by blast
  from fresh have none: "map_of pb k0 = None" by (simp add: map_of_eq_None_iff)
  have "c' k = (case map_of (p # pb) k of
                            None \<Rightarrow> c k
                          | Some code \<Rightarrow>
                              c k + of_int (least_quotient_count prec locations k (bqm code))
                                    * (if ds = 1 then 1 else - 1))" for k
  proof (cases "k = k0")
    case True
    with val [rule_format, of k] none show ?thesis by (simp add: p)
  next
    case False
    with val [rule_format, of k] show ?thesis
      by (cases "map_of pb k") (simp_all add: p)
  qed
  with run comp show ?case by (simp add: p)
qed

lemma update_bundle_picked_qty_result:
  "\<exists>c'. update_bundle_picked_qty prec so_item_code bqm doc c = Inr c'
     \<and> (\<forall>k. c' k = (if k \<in> set (map fst (get_product_bundles so_item_code (pl_locations doc)))
                     then c k + of_int (least_quotient_count prec (pl_locations doc) k
                                          (bqm (so_item_code k)))
                                * (if pl_docstatus doc = 1 then 1 else - 1)
                     else c k))"
proof -
  let ?pb = "get_product_bundles so_item_code (pl_locations doc)"
  have d: "distinct (map fst ?pb)"
    by (simp add: get_product_bundles_def get_product_bundles_from_distinct)
  have ex: "\<forall>k \<in> set (map fst ?pb). \<exists>item \<in> set (pl_locations doc). pli_product_bundle_item item = Some k"
    using get_product_bundles_from_keys [of so_item_code "pl_locations doc" "[]"]
    by (auto simp: get_product_bundles_def)
  have v: "list_all (\<lambda>(k, v). v = so_item_code k) ?pb"
    by (simp add: get_product_bundles_def get_product_bundles_from_values)
  from update_bundle_rows_result [OF d ex, of prec bqm "pl_docstatus doc" c]
  obtain c' where run: "update_bundle_rows prec bqm (pl_docstatus doc) (pl_locations doc) ?pb c = Inr c'"
    and val: "\<forall>k. c' k = (case map_of ?pb k of
                            None \<Rightarrow> c k
                          | Some code \<Rightarrow>
                              c k + of_int (least_quotient_count prec (pl_locations doc) k (bqm code))
                                    * (if pl_docstatus doc = 1 then 1 else - 1))"
    by blast
  have "c' k = (if k \<in> set (map fst ?pb)
                     then c k + of_int (least_quotient_count prec (pl_locations doc) k
                                          (bqm (so_item_code k)))
                                * (if pl_docstatus doc = 1 then 1 else - 1)
                     else c k)" for k
  proof (cases "map_of ?pb k")
    case None
    then have "k \<notin> set (map fst ?pb)" by (simp add: map_of_eq_None_iff)
    with val None show ?thesis by simp
  next
    case (Some code)
    then have in_pb: "(k, code) \<in> set ?pb" by (rule map_of_SomeD)
    with v have "code = so_item_code k" by (auto simp: list_all_iff)
    moreover from in_pb have "k \<in> set (map fst ?pb)" by force
    ultimately show ?thesis using val Some by simp
  qed
  with run show ?thesis by (auto simp: update_bundle_picked_qty_def)
qed

lemma round_half_even_near: "\<bar>of_int (round_half_even y) - y\<bar> \<le> 1 / 2"
proof -
  define f where "f = \<lfloor>y\<rfloor>"
  define d where "d = y - of_int f"
  have d0: "0 \<le> d" and d1: "d < 1" unfolding d_def f_def by linarith+
  have y: "y = of_int f + d" by (simp add: d_def)
  have r: "round_half_even y
             = (if d < 1 / 2 then f else if 1 / 2 < d then f + 1
                else if even f then f else f + 1)"
    by (simp add: round_half_even_def Let_def f_def d_def)
  have yf: "of_int f - y = - d" and yf1: "of_int (f + 1) - y = 1 - d" by (simp_all add: y)
  show ?thesis
  proof (cases "d < 1 / 2")
    case True
    then have "of_int (round_half_even y) - y = - d" by (simp only: r if_True yf)
    with True d0 show ?thesis by simp
  next
    case False
    then have "of_int (round_half_even y) - y = - d \<and> d = 1 / 2
               \<or> of_int (round_half_even y) - y = 1 - d"
      using yf yf1 by (cases "1 / 2 < d"; cases "even f") (simp_all only: r if_True if_False, simp_all)
    with False d1 show ?thesis by auto
  qed
qed

lemma rounded_multiple: "\<exists>k::int. rounded x p = of_int k / 10 ^ p"
  by (auto simp: rounded_def)

lemma rounded_near: "\<bar>rounded x p - x\<bar> \<le> 1 / (2 * 10 ^ p)"
proof -
  have pos: "(0::rat) < 10 ^ p" by simp
  have "rounded x p - x = (of_int (round_half_even (x * 10 ^ p)) - x * 10 ^ p) / 10 ^ p"
    by (simp add: rounded_def field_simps)
  then have "\<bar>rounded x p - x\<bar> = \<bar>of_int (round_half_even (x * 10 ^ p)) - x * 10 ^ p\<bar> / 10 ^ p"
    by (simp add: abs_divide)
  also have "\<dots> \<le> (1 / 2) / 10 ^ p"
    using round_half_even_near [of "x * 10 ^ p"] pos by (intro divide_right_mono) simp_all
  finally show ?thesis by simp
qed

lemma bundle_example:
  "compute_picked_qty_for_bundle None [component ''A'' 5, component ''B'' 7] ''SO-1-BUNDLE''
      [''A'' \<mapsto> 2, ''B'' \<mapsto> 3] = Inr 2"
  by (simp add: compute_picked_qty_for_bundle_def possible_bundles_def py_min_def
      precision_or_6_def flt_def rounded_def round_half_even_def py_int_def component_def
      Let_def)

lemma rounding_examples:
  "compute_picked_qty_for_bundle (Some 2) [component ''A'' (749 / 250)] ''SO-1-BUNDLE''
      [''A'' \<mapsto> 1] = Inr 3"
  "compute_picked_qty_for_bundle None [component ''A'' (749 / 250)] ''SO-1-BUNDLE''
      [''A'' \<mapsto> 1] = Inr 2"
  "compute_picked_qty_for_bundle None [component ''A'' (29999996 / 10000000)] ''SO-1-BUNDLE''
      [''A'' \<mapsto> 1] = Inr 3"
  by (simp_all add: compute_picked_qty_for_bundle_def possible_bundles_def py_min_def
      precision_or_6_def flt_def rounded_def round_half_even_def py_int_def component_def
      Let_def)


lemma compute_picked_qty_for_bundle_rounded:
  assumes "\<exists>item \<in> set locations. pli_product_bundle_item item = Some bundle_row"
  shows "\<exists>digits m r.
          digits = (case precision of None \<Rightarrow> 6 | Some p \<Rightarrow> if p = 0 then 6 else p)
        \<and> m = Min ((\<lambda>item. case bundle_items (pli_item_code item) of
                              None \<Rightarrow> 0
                            | Some required \<Rightarrow>
                                if required = 0 then 0 else pli_picked_qty item / required)
                   ` {item \<in> set locations. pli_product_bundle_item item = Some bundle_row})
        \<and> (\<exists>k::int. r = of_int k / 10 ^ digits)
        \<and> \<bar>r - m\<bar> \<le> 1 / (2 * 10 ^ digits)
        \<and> compute_picked_qty_for_bundle precision locations bundle_row bundle_items
            = Inr (if 0 \<le> r then \<lfloor>r\<rfloor> else \<lceil>r\<rceil>)"
proof -
  define digits where "digits = (case precision of None \<Rightarrow> 6 | Some p \<Rightarrow> if p = 0 then 6 else p)"
  define m where "m = Min ((\<lambda>item. case bundle_items (pli_item_code item) of
                              None \<Rightarrow> 0
                            | Some required \<Rightarrow>
                                if required = 0 then 0 else pli_picked_qty item / required)
                   ` {item \<in> set locations. pli_product_bundle_item item = Some bundle_row})"
  define r where "r = rounded m digits"
  have dg: "precision_or_6 precision = digits" by (simp add: precision_or_6_def digits_def)
  from compute_picked_qty_for_bundle_least [OF assms, of precision bundle_items]
  have "compute_picked_qty_for_bundle precision locations bundle_row bundle_items
          = Inr (py_int r)"
    by (simp add: least_quotient_count_def dg r_def m_def)
  then have "compute_picked_qty_for_bundle precision locations bundle_row bundle_items
            = Inr (if 0 \<le> r then \<lfloor>r\<rfloor> else \<lceil>r\<rceil>)"
    by (simp add: py_int_def)
  moreover have "\<exists>k::int. r = of_int k / 10 ^ digits" unfolding r_def by (rule rounded_multiple)
  moreover have "\<bar>r - m\<bar> \<le> 1 / (2 * 10 ^ digits)" unfolding r_def by (rule rounded_near)
  ultimately show ?thesis unfolding digits_def m_def by blast
qed

lemma update_bundle_picked_qty_delta:
  "\<exists>so_picked_qty'.
      update_bundle_picked_qty precision so_item_code bundle_qty_map doc so_picked_qty
        = Inr so_picked_qty'
      \<and> (\<forall>so_row \<in> set (map fst (get_product_bundles so_item_code (pl_locations doc))).
            \<exists>count.
              compute_picked_qty_for_bundle precision (pl_locations doc) so_row
                (bundle_qty_map (so_item_code so_row)) = Inr count
            \<and> so_picked_qty' so_row
                = so_picked_qty so_row
                  + of_int count * (if pl_docstatus doc = 1 then 1 else - 1))"
proof -
  let ?pb = "get_product_bundles so_item_code (pl_locations doc)"
  from update_bundle_picked_qty_result [of precision so_item_code bundle_qty_map doc so_picked_qty]
  obtain c' where run: "update_bundle_picked_qty precision so_item_code bundle_qty_map doc
                          so_picked_qty = Inr c'"
    and val: "\<forall>k. c' k = (if k \<in> set (map fst ?pb)
                     then so_picked_qty k
                          + of_int (least_quotient_count precision (pl_locations doc) k
                                      (bundle_qty_map (so_item_code k)))
                            * (if pl_docstatus doc = 1 then 1 else - 1)
                     else so_picked_qty k)"
    by blast
  have "\<exists>count.
              compute_picked_qty_for_bundle precision (pl_locations doc) so_row
                (bundle_qty_map (so_item_code so_row)) = Inr count
            \<and> c' so_row
                = so_picked_qty so_row
                  + of_int count * (if pl_docstatus doc = 1 then 1 else - 1)"
    if k: "so_row \<in> set (map fst ?pb)" for so_row
  proof -
    from k get_product_bundles_from_keys [of so_item_code "pl_locations doc" "[]"]
    have "\<exists>item \<in> set (pl_locations doc). pli_product_bundle_item item = Some so_row"
      by (auto simp: get_product_bundles_def)
    from compute_picked_qty_for_bundle_least [OF this, of precision
        "bundle_qty_map (so_item_code so_row)"] val [rule_format, of so_row] k
    show ?thesis by simp
  qed
  with run show ?thesis by blast
qed

text \<open>
  C5. For a bundle row with at least one component row, the count that
  \<^verbatim>\<open>_compute_picked_qty_for_bundle\<close> returns is obtained from the least quotient
  \<open>m\<close> of picked quantity by quantity per bundle over the component rows (0 for a
  component without a quantity in the bundle) in two steps: \<open>m\<close> is rounded to a number
  \<open>r\<close> with \<open>digits\<close> decimals, that is a multiple of \<open>1 / 10 ^ digits\<close> at
  most half a unit of the last decimal away from \<open>m\<close>, and \<open>r\<close> is cut to an integer
  towards zero. The number of decimals is the configured precision, and 6 when none or zero is
  configured. For a bundle of 2 A and 3 B with 5 A and 7 B picked the count is 2; 2.996
  picked for one unit per bundle gives 3 at precision 2 and 2 at the default precision;
  2.9999996 gives 3 at the default precision. \<^verbatim>\<open>update_bundle_picked_qty\<close> changes
  the picked quantity of every bundle row by the count of that row, added when the
  document is submitted (docstatus 1) and subtracted otherwise, as on cancelling.
\<close>

theorem bundle_count_minimum_rule:
  "((\<exists>item \<in> set locations. pli_product_bundle_item item = Some bundle_row) \<longrightarrow>
      (\<exists>digits m r.
          digits = (case precision of None \<Rightarrow> 6 | Some p \<Rightarrow> if p = 0 then 6 else p)
        \<and> m = Min ((\<lambda>item. case bundle_items (pli_item_code item) of
                              None \<Rightarrow> 0
                            | Some required \<Rightarrow>
                                if required = 0 then 0 else pli_picked_qty item / required)
                   ` {item \<in> set locations. pli_product_bundle_item item = Some bundle_row})
        \<and> (\<exists>k::int. r = of_int k / 10 ^ digits)
        \<and> \<bar>r - m\<bar> \<le> 1 / (2 * 10 ^ digits)
        \<and> compute_picked_qty_for_bundle precision locations bundle_row bundle_items
            = Inr (if 0 \<le> r then \<lfloor>r\<rfloor> else \<lceil>r\<rceil>)))
   \<and> compute_picked_qty_for_bundle None [component ''A'' 5, component ''B'' 7] ''SO-1-BUNDLE''
        [''A'' \<mapsto> 2, ''B'' \<mapsto> 3] = Inr 2
   \<and> compute_picked_qty_for_bundle (Some 2) [component ''A'' (749 / 250)] ''SO-1-BUNDLE''
        [''A'' \<mapsto> 1] = Inr 3
   \<and> compute_picked_qty_for_bundle None [component ''A'' (749 / 250)] ''SO-1-BUNDLE''
        [''A'' \<mapsto> 1] = Inr 2
   \<and> compute_picked_qty_for_bundle None [component ''A'' (29999996 / 10000000)] ''SO-1-BUNDLE''
        [''A'' \<mapsto> 1] = Inr 3
   \<and> (\<exists>so_picked_qty'.
        update_bundle_picked_qty precision so_item_code bundle_qty_map doc so_picked_qty
          = Inr so_picked_qty'
        \<and> (\<forall>so_row \<in> set (map fst (get_product_bundles so_item_code (pl_locations doc))).
              \<exists>count.
                compute_picked_qty_for_bundle precision (pl_locations doc) so_row
                  (bundle_qty_map (so_item_code so_row)) = Inr count
              \<and> so_picked_qty' so_row
                  = so_picked_qty so_row
                    + of_int count * (if pl_docstatus doc = 1 then 1 else - 1)))"
  using compute_picked_qty_for_bundle_rounded [of locations bundle_row precision bundle_items]
    bundle_example rounding_examples(1,2,3)
    update_bundle_picked_qty_delta [of precision so_item_code bundle_qty_map doc so_picked_qty]
  by (intro conjI impI) assumption+

theorem bundle_count_minimum_rule_witness:
  "compute_picked_qty_for_bundle (Some 2) [component ''A'' (749 / 250)] ''SO-1-BUNDLE''
      [''A'' \<mapsto> 1] = Inr 3
   \<and> (\<exists>r::rat. (\<exists>k::int. r = of_int k / 10 ^ 2) \<and> \<bar>r - 749 / 250\<bar> \<le> 1 / (2 * 10 ^ 2)
         \<and> (if 0 \<le> r then \<lfloor>r\<rfloor> else \<lceil>r\<rceil>) = 3)
   \<and> update_bundle_picked_qty None (\<lambda>so_row. ''BUNDLE-ITEM'')
        (\<lambda>code. [''A'' \<mapsto> 2, ''B'' \<mapsto> 3])
        (delivery 1 [component ''A'' 5, component ''B'' 7]) (\<lambda>so_row. 10)
      = Inr ((\<lambda>so_row. 10)(''SO-1-BUNDLE'' := 12))
   \<and> update_bundle_picked_qty None (\<lambda>so_row. ''BUNDLE-ITEM'')
        (\<lambda>code. [''A'' \<mapsto> 2, ''B'' \<mapsto> 3])
        (delivery 2 [component ''A'' 5, component ''B'' 7]) (\<lambda>so_row. 10)
      = Inr ((\<lambda>so_row. 10)(''SO-1-BUNDLE'' := 8))"
proof -
  have row: "\<exists>item \<in> set [component ''A'' (749 / 250)].
               pli_product_bundle_item item = Some ''SO-1-BUNDLE''"
    by (simp add: component_def)
  have set_eq: "{item \<in> set [component ''A'' (749 / 250)].
                   pli_product_bundle_item item = Some ''SO-1-BUNDLE''}
                = {component ''A'' (749 / 250)}"
    by (auto simp: component_def)
  have three: "compute_picked_qty_for_bundle (Some 2) [component ''A'' (749 / 250)]
      ''SO-1-BUNDLE'' [''A'' \<mapsto> 1] = Inr 3"
    by (simp add: compute_picked_qty_for_bundle_def possible_bundles_def py_min_def
      precision_or_6_def flt_def rounded_def round_half_even_def py_int_def component_def
      Let_def)
  from bundle_count_minimum_rule [of "[component ''A'' (749 / 250)]" "''SO-1-BUNDLE''"
      "Some 2" "[''A'' \<mapsto> 1]", THEN conjunct1, rule_format, OF row]
  obtain digits :: nat and m r :: rat
    where dg: "digits = (case Some 2 of None \<Rightarrow> 6 | Some p \<Rightarrow> if p = 0 then 6 else p)"
    and m: "m = Min ((\<lambda>item. case [''A'' \<mapsto> 1::rat] (pli_item_code item) of
                              None \<Rightarrow> 0
                            | Some required \<Rightarrow>
                                if required = 0 then 0 else pli_picked_qty item / required)
                   ` {item \<in> set [component ''A'' (749 / 250)].
                        pli_product_bundle_item item = Some ''SO-1-BUNDLE''})"
    and k: "\<exists>k::int. r = of_int k / 10 ^ digits"
    and near: "\<bar>r - m\<bar> \<le> 1 / (2 * 10 ^ digits)"
    and count: "compute_picked_qty_for_bundle (Some 2) [component ''A'' (749 / 250)]
                  ''SO-1-BUNDLE'' [''A'' \<mapsto> 1] = Inr (if 0 \<le> r then \<lfloor>r\<rfloor> else \<lceil>r\<rceil>)"
    by blast
  from dg have digits: "digits = 2" by simp
  have "m = 749 / 250" unfolding m set_eq by (simp add: component_def)
  with k near count three digits
  have near3: "\<exists>r::rat. (\<exists>k::int. r = of_int k / 10 ^ 2) \<and> \<bar>r - 749 / 250\<bar> \<le> 1 / (2 * 10 ^ 2)
         \<and> (if 0 \<le> r then \<lfloor>r\<rfloor> else \<lceil>r\<rceil>) = 3"
    by (intro exI [of _ r]) simp
  have pb: "get_product_bundles (\<lambda>so_row. ''BUNDLE-ITEM'') [component ''A'' 5, component ''B'' 7]
      = [(''SO-1-BUNDLE'', ''BUNDLE-ITEM'')]"
    by (simp add: get_product_bundles_def component_def)
  have "update_bundle_picked_qty None (\<lambda>so_row. ''BUNDLE-ITEM'')
        (\<lambda>code. [''A'' \<mapsto> 2, ''B'' \<mapsto> 3])
        (delivery ds [component ''A'' 5, component ''B'' 7]) (\<lambda>so_row. 10)
      = Inr ((\<lambda>so_row. 10)(''SO-1-BUNDLE'' := 10 + 2 * (if ds = 1 then 1 else - 1)))" for ds
    by (simp add: update_bundle_picked_qty_def delivery_def pb bundle_example)
  from this [of 1] this [of 2] three near3 show ?thesis by simp
qed

text \<open>
  With the precision configured as 0 the count is not the least quotient rounded to that
  precision: \<^verbatim>\<open>precision or 6\<close> rounds to 6 decimals. For 2.7 picked and one unit per
  bundle the code returns 2, where rounding to 0 decimals and truncating gives 3.
\<close>

theorem zero_precision_counterexample:
  "compute_picked_qty_for_bundle (Some 0) [component ''A'' (27 / 10)] ''SO-1-BUNDLE''
      [''A'' \<mapsto> 1] = Inr 2
   \<and> py_int (flt (27 / 10) (Some 0)) = 3"
  by (simp add: compute_picked_qty_for_bundle_def possible_bundles_def py_min_def
      precision_or_6_def flt_def rounded_def round_half_even_def py_int_def component_def
      Let_def)


section \<open>Properties of the guard\<close>

lemma get_picked_items_qty_sums:
  assumes "row \<in> set (get_picked_items_qty pick_list_items items)"
  shows "pr_stock_qty row = sum_list (map pli_stock_qty
           (filter (\<lambda>r. group_key r = (pr_sales_order_item row, pr_sales_order row))
              (selected_rows pick_list_items items)))
       \<and> pr_picked_qty row = sum_list (map pli_picked_qty
           (filter (\<lambda>r. group_key r = (pr_sales_order_item row, pr_sales_order row))
              (selected_rows pick_list_items items)))"
  using assms by (auto simp: get_picked_items_qty_def Let_def)

lemma update_sales_order_item_qty_error:
  assumes "validate_picked_qty allowance (get_picked_items_qty pick_list_items so_items) = Inl e"
  shows "update_sales_order_item_qty allowance pick_list_items so_items so_picked_qty = Inl e"
  using assms by (simp add: update_sales_order_item_qty_def Let_def)

lemma submitted_rows_data:
  "get_picked_items_qty submitted_rows [''SO-1-ROW-1'']
     = [\<lparr>pr_sales_order_item = Some ''SO-1-ROW-1'', pr_item_code = ''ITEM-A'',
         pr_sales_order = Some ''SO-1'', pr_stock_qty = 20, pr_picked_qty = 22\<rparr>]"
  by (simp add: get_picked_items_qty_def selected_rows_def group_key_def submitted_rows_def
      line_a_def Let_def)

text \<open>
  Two submitted rows of one sales order row with 20 units asked for and 22 picked. With an
  allowance of 5 per cent the validation stops with the error that names the item and the
  sales order, and \<^verbatim>\<open>update_sales_order_item_qty\<close> ends with it; with 15 per cent the
  validation passes. With 10 per cent, where 22 is the bound itself, the float percentage
  \<^verbatim>\<open>(22.0 / 20.0) * 100\<close> is 110.00000000000001 and the validation stops as well.
\<close>

lemma double_round_examples:
  "double_round (1 / 10) = 3602879701896397 / 36028797018963968"
  "double_round (double_round (1 / 10) + double_round (2 / 10))
     = 5404319552844596 / 18014398509481984"
  "double_round (double_round 22 / double_round 20) = 2476979795053773 / 2251799813685248"
  "double_round (2476979795053773 / 2251799813685248 * 100)
     = 7740561859543041 / 70368744177664"
  "double_round (double_round (double_round 21 / double_round 20) * 100) = 105"
  by code_simp+

lemma over_picking_examples:
  "validate_picked_qty 5 (get_picked_items_qty submitted_rows [''SO-1-ROW-1''])
     = Inl (PickingMoreThanRequired ''ITEM-A'' (Some ''SO-1''))"
  "update_sales_order_item_qty 5 submitted_rows [''SO-1-ROW-1''] (\<lambda>so_item. 0)
     = Inl (PickingMoreThanRequired ''ITEM-A'' (Some ''SO-1''))"
  "validate_picked_qty 15 (get_picked_items_qty submitted_rows [''SO-1-ROW-1'']) = Inr ()"
  "validate_picked_qty 10 (get_picked_items_qty submitted_rows [''SO-1-ROW-1''])
     = Inl (PickingMoreThanRequired ''ITEM-A'' (Some ''SO-1''))"
proof -
  show v5: "validate_picked_qty 5 (get_picked_items_qty submitted_rows [''SO-1-ROW-1''])
     = Inl (PickingMoreThanRequired ''ITEM-A'' (Some ''SO-1''))"
    unfolding submitted_rows_data by code_simp
  show "update_sales_order_item_qty 5 submitted_rows [''SO-1-ROW-1''] (\<lambda>so_item. 0)
     = Inl (PickingMoreThanRequired ''ITEM-A'' (Some ''SO-1''))"
    using v5 by (rule update_sales_order_item_qty_error)
  show "validate_picked_qty 15 (get_picked_items_qty submitted_rows [''SO-1-ROW-1'']) = Inr ()"
    unfolding submitted_rows_data by code_simp
  show "validate_picked_qty 10 (get_picked_items_qty submitted_rows [''SO-1-ROW-1''])
     = Inl (PickingMoreThanRequired ''ITEM-A'' (Some ''SO-1''))"
    unfolding submitted_rows_data by code_simp
qed

text \<open>
  C4. A submitted row of a sales order row with stock quantity 0 and picked quantity 1: the
  summed picked quantity exceeds the summed stock quantity times (1 + allowance / 100),
  which is 0, at allowance 0. The percentage of line 273 divides by the summed stock
  quantity, so the validation ends with \<^verbatim>\<open>ZeroDivisionError\<close> and not with the error
  that names the item and the sales order; \<^verbatim>\<open>update_sales_order_item_qty\<close> ends with
  the same exception.
\<close>

theorem zero_stock_qty_division_error:
  "get_picked_items_qty unstocked_rows [''SO-1-ROW-1'']
     = [\<lparr>pr_sales_order_item = Some ''SO-1-ROW-1'', pr_item_code = ''ITEM-A'',
         pr_sales_order = Some ''SO-1'', pr_stock_qty = 0, pr_picked_qty = 1\<rparr>]
   \<and> (0::rat) * (1 + 0 / 100) < 1
   \<and> validate_picked_qty 0 (get_picked_items_qty unstocked_rows [''SO-1-ROW-1''])
       = Inl ZeroDivisionError
   \<and> validate_picked_qty 0 (get_picked_items_qty unstocked_rows [''SO-1-ROW-1''])
       \<noteq> Inl (PickingMoreThanRequired ''ITEM-A'' (Some ''SO-1''))
   \<and> update_sales_order_item_qty 0 unstocked_rows [''SO-1-ROW-1''] (\<lambda>so_item. 0)
       = Inl ZeroDivisionError"
  by (simp add: update_sales_order_item_qty_def get_picked_items_qty_def selected_rows_def
      group_key_def unstocked_rows_def line_a_def Let_def double_round_def)

section \<open>Two pick lists and one bin\<close>

text \<open>
  Whatever other pick lists have picked, a candidate of an untracked item carries the whole
  quantity of its bin.
\<close>

lemma candidates_carry_bin_quantity:
  assumes "loc \<in> set (fst (get_available_item_locations bins item_code from_warehouses
                              required_qty company picked_item_details))"
  shows "\<exists>b \<in> set bins. bin_item_code b = item_code
           \<and> loc = untracked_candidate (bin_warehouse b) (bin_actual_qty b)"
proof -
  from assms obtain t where
    "loc \<in> set (get_available_item_locations_for_other_item bins item_code from_warehouses
                   required_qty company t)"
    by (auto simp: get_available_item_locations_def Let_def split: if_splits)
  then show ?thesis
    by (auto simp: get_available_item_locations_for_other_item_def dest!: in_set_takeD)
qed

lemma first_run:
  "set_item_locations (untracked_stock_db stores_db one_bin [] (Some ''PL-A'') None ''ACME'')
     (delivery 0 [line_a ''Bay-1'' 10 0])
   = Inr (delivery 0 [line_a ''Stores'' 10 0], [])"
  by (simp add: set_item_locations_def validate_for_qty_def aggregate_item_qty_def
      aggregate_row_def item_key_of_def py_or_def flt_def rounded_def round_half_even_def
      updated_locations_def item_map_values_def get_items_with_location_and_quantity_def
      remaining_stock_qty_def alloc_loop.simps alloc_step_def take_from_def requeue_def
      untracked_candidate_def as_location_def merge_location_def location_key_of_def
      clamp_picked_qty_def stores_db_def line_a_def delivery_def Let_def
      untracked_stock_db_def get_available_item_locations_def
      get_available_item_locations_for_other_item_def get_picked_items_details_def
      py_truthy_def py_int_def one_bin_def)

lemma second_run:
  "set_item_locations
     (untracked_stock_db stores_db one_bin
        (stored_as ''PL-A'' ''Draft'' (delivery 0 [line_a ''Stores'' 10 0]))
        (Some ''PL-B'') None ''ACME'')
     (delivery 0 [line_a ''Bay-1'' 10 0])
   = Inr (delivery 0 [line_a ''Stores'' 10 0], [])"
  by (simp add: set_item_locations_def validate_for_qty_def aggregate_item_qty_def
      aggregate_row_def item_key_of_def py_or_def flt_def rounded_def round_half_even_def
      updated_locations_def item_map_values_def get_items_with_location_and_quantity_def
      remaining_stock_qty_def alloc_loop.simps alloc_step_def take_from_def requeue_def
      untracked_candidate_def as_location_def merge_location_def location_key_of_def
      clamp_picked_qty_def stores_db_def line_a_def delivery_def Let_def
      untracked_stock_db_def get_available_item_locations_def
      get_available_item_locations_for_other_item_def get_picked_items_details_def
      py_truthy_def py_int_def one_bin_def stored_as_def counted_qty_def detail_key_def
      detail_group_def)

lemma second_run_details:
  "get_picked_items_details (stored_as ''PL-A'' ''Draft'' (delivery 0 [line_a ''Stores'' 10 0]))
     (Some ''PL-B'') ''ITEM-A'' = [((Some ''Stores'', None), 10)]"
  by (simp add: get_picked_items_details_def stored_as_def delivery_def line_a_def
      counted_qty_def detail_key_def detail_group_def Let_def)


text \<open>
  C10. Two pick lists that each require 10 units of an item of which one bin holds 10, run
  one after the other: the first is allocated the 10 units; the second reads these 10 as
  picked by another pick list and is allocated the same 10 units again. The two
  allocations together exceed the stock.
\<close>

theorem two_serial_runs_claim_the_same_stock:
  "set_item_locations (untracked_stock_db stores_db one_bin [] (Some ''PL-A'') None ''ACME'')
     (delivery 0 [line_a ''Bay-1'' 10 0])
   = Inr (delivery 0 [line_a ''Stores'' 10 0], [])
   \<and> get_picked_items_details
        (stored_as ''PL-A'' ''Draft'' (delivery 0 [line_a ''Stores'' 10 0]))
        (Some ''PL-B'') ''ITEM-A'' = [((Some ''Stores'', None), 10)]
   \<and> set_item_locations
        (untracked_stock_db stores_db one_bin
           (stored_as ''PL-A'' ''Draft'' (delivery 0 [line_a ''Stores'' 10 0]))
           (Some ''PL-B'') None ''ACME'')
        (delivery 0 [line_a ''Bay-1'' 10 0])
      = Inr (delivery 0 [line_a ''Stores'' 10 0], [])
   \<and> sum_list (map bin_actual_qty one_bin)
       < pli_stock_qty (line_a ''Stores'' 10 0) + pli_stock_qty (line_a ''Stores'' 10 0)"
  by (simp add: first_run second_run second_run_details)
    (simp add: one_bin_def line_a_def)


end
